theory Spec2Isabelle
  imports Complex_Main "HOL-Library.AList"
begin

section \<open>The audio playback engine (class AudioManager)\<close>

text \<open>
  The class is a record of its fields. JavaScript numbers that only pass through
  \<open>Math.max\<close>, \<open>Math.min\<close> and comparisons are reals (these operations are exact on
  finite doubles); the transition counter is a natural number (\<open>++\<close> on a double is
  exact below \<open>2^53\<close>). The Web Audio objects are private to the manager, so a node is
  stored by value: the source node by the buffer it plays, the gain node by its
  \<open>gain.value\<close>. What the engine does to the platform is appended to \<open>effects\<close>;
  \<open>timers\<close> holds the pending \<open>setTimeout\<close> handles and \<open>fresh\<close> the next handle.
\<close>

datatype SoundState = idle | loading | ready | playing | stopping | unloading

type_synonym js_error = string

datatype effect =
    ContextCreated nat
  | ContextClosed nat
  | FetchIssued string
  | SourceStarted nat string
  | SourceStopped
  | StateChanged SoundState

record AudioManager =
  audioContext :: "nat option"
  audioBuffer :: "string option"
  sourceNode :: "string option"
  gainNode :: "real option"
  state :: SoundState
  currentUrl :: "string option"
  transitionId :: nat
  volume :: real
  isMuted :: bool
  fadeTimeout :: "nat option"
  sound :: "nat option"
  effects :: "effect list"
  timers :: "nat list"
  fresh :: nat

text \<open>The field initialisers of the class; \<open>sound\<close> is declared without one.\<close>

definition newAudioManager :: AudioManager where
  "newAudioManager =
     \<lparr> audioContext = None, audioBuffer = None, sourceNode = None, gainNode = None,
       state = idle, currentUrl = None, transitionId = 0, volume = 1, isMuted = False,
       fadeTimeout = None, sound = None, effects = [], timers = [], fresh = 1 \<rparr>"

text \<open>
  \<open>setState\<close>: assign the state and call \<open>onStateChange\<close>; the call is recorded as
  an effect, and a listener that throws is outside the model.
\<close>

definition setState :: "SoundState \<Rightarrow> AudioManager \<Rightarrow> AudioManager" where
  "setState s m = m\<lparr> state := s, effects := effects m @ [StateChanged s] \<rparr>"

text \<open>\<open>if (this.fadeTimeout) { clearTimeout(this.fadeTimeout); this.fadeTimeout = null; }\<close>\<close>

definition clearFadeTimeout :: "AudioManager \<Rightarrow> AudioManager" where
  "clearFadeTimeout m =
     (case fadeTimeout m of
        None \<Rightarrow> m
      | Some t \<Rightarrow> m\<lparr> timers := removeAll t (timers m), fadeTimeout := None \<rparr>)"

text \<open>
  \<open>cleanup\<close>: clear the fade timer, close the context when there is one (the manager
  drops a context as soon as it closes it, so a referenced context is never closed),
  null every field and go to \<open>idle\<close>.
\<close>

definition closeContext :: "AudioManager \<Rightarrow> AudioManager" where
  "closeContext m =
     (case audioContext m of
        None \<Rightarrow> m
      | Some c \<Rightarrow> m\<lparr> effects := effects m @ [ContextClosed c] \<rparr>)"

definition cleanup :: "AudioManager \<Rightarrow> AudioManager" where
  "cleanup m =
     setState idle
       ((closeContext (clearFadeTimeout m))
          \<lparr> audioContext := None, audioBuffer := None, sourceNode := None,
            gainNode := None, currentUrl := None \<rparr>)"

text \<open>
  \<open>setVolume\<close>: clamp and store the volume, then write the masked value to the gain
  node when there is one.
\<close>

definition setVolume :: "real \<Rightarrow> AudioManager \<Rightarrow> AudioManager" where
  "setVolume v m =
     (let m1 = m\<lparr> volume := max 0 (min 1 v) \<rparr>;
          targetVolume = (if isMuted m1 then 0 else volume m1)
      in case gainNode m1 of
           None \<Rightarrow> m1
         | Some _ \<Rightarrow> m1\<lparr> gainNode := Some targetVolume \<rparr>)"

definition setMuted :: "bool \<Rightarrow> AudioManager \<Rightarrow> AudioManager" where
  "setMuted muted m =
     (let m1 = m\<lparr> isMuted := muted \<rparr>;
          targetVolume = (if muted then 0 else volume m1)
      in setVolume targetVolume m1)"

text \<open>What the listener hears: the gain of the output graph, silence without one.\<close>

definition effectiveVolume :: "AudioManager \<Rightarrow> real" where
  "effectiveVolume m = (case gainNode m of None \<Rightarrow> 0 | Some g \<Rightarrow> g)"

text \<open>
  \<open>unload\<close>: nothing when idle; otherwise mute the gain, stop and drop the source,
  drop the gain node and the buffer, and (in \<open>finally\<close>) run \<open>cleanup\<close>. An exception
  of a platform call inside the \<open>try\<close> would skip to the same \<open>cleanup\<close>, which clears
  the same fields.
\<close>

definition unload :: "AudioManager \<Rightarrow> AudioManager" where
  "unload m =
     (if state m = idle then m
      else
        let m1 = setState unloading m;
            m2 = (case gainNode m1 of None \<Rightarrow> m1 | Some _ \<Rightarrow> m1\<lparr> gainNode := Some 0 \<rparr>);
            m3 = (case sourceNode m2 of
                    None \<Rightarrow> m2
                  | Some _ \<Rightarrow> m2\<lparr> sourceNode := None, effects := effects m2 @ [SourceStopped] \<rparr>);
            m4 = m3\<lparr> gainNode := None, audioBuffer := None \<rparr>
        in cleanup m4)"

subsection \<open>Volume ramps\<close>

text \<open>
  \<open>fadeTo\<close> clears a pending fade timer, resolves at once when \<open>this.sound\<close> is falsy,
  and otherwise starts a ramp: a promise resolved by animation-frame callbacks. A ramp
  is its parameters and the place where it waits: for a frame, for the return of
  \<open>setVolume\<close>, or for the 16 ms timer.
\<close>

record fade_job =
  fade_from :: real
  fade_to :: real
  fade_duration :: real
  fade_startTime :: real

datatype fade_pc = FadeFrame | FadeVolumeSet real | FadeTimer nat

definition fadeTo :: "real \<Rightarrow> real \<Rightarrow> real \<Rightarrow> real \<Rightarrow> AudioManager \<Rightarrow> fade_job option \<times> AudioManager" where
  "fadeTo from to duration now m =
     (let m1 = clearFadeTimeout m
      in if sound m1 = None then (None, m1)
         else (Some \<lparr> fade_from = from, fade_to = to, fade_duration = duration,
                       fade_startTime = now \<rparr>, m1))"

datatype signal = Settled | Failed js_error | PlatformThrows js_error | Frame real

text \<open>
  One resumption of a ramp; \<open>None\<close> is \<open>resolve()\<close>. A frame callback that is resumed by
  something else than a frame, and a timer that was cleared, stay where they are.
\<close>

fun fade_resume :: "signal \<Rightarrow> fade_job \<Rightarrow> fade_pc \<Rightarrow> AudioManager \<Rightarrow> fade_pc option \<times> AudioManager" where
  "fade_resume (Frame timestamp) job FadeFrame m =
     (if sound m = None \<or> state m = unloading \<or> state m = idle then (None, m)
      else
        let elapsed = timestamp - fade_startTime job;
            progress = min (elapsed / fade_duration job) 1;
            currentVolume = fade_from job + (fade_to job - fade_from job) * progress
        in (Some (FadeVolumeSet progress), setVolume currentVolume m))"
| "fade_resume _ job FadeFrame m = (Some FadeFrame, m)"
| "fade_resume _ job (FadeVolumeSet progress) m =
     (if progress < 1
      then (Some (FadeTimer (fresh m)),
            m\<lparr> fadeTimeout := Some (fresh m), timers := timers m @ [fresh m],
              fresh := Suc (fresh m) \<rparr>)
      else (None, m\<lparr> fadeTimeout := None \<rparr>))"
| "fade_resume _ job (FadeTimer t) m =
     (if t \<in> set (timers m) then (Some FadeFrame, m\<lparr> timers := removeAll t (timers m) \<rparr>)
      else (Some (FadeTimer t), m))"

subsection \<open>The asynchronous operations as coroutines\<close>

text \<open>
  An \<open>async\<close> method runs to its first \<open>await\<close> when it is called and is resumed from
  there later; nothing else runs in between. A suspended invocation is the place where
  it waits. \<open>Suspended\<close> carries that place, \<open>Resolved\<close> and \<open>Rejected\<close> are the two
  ways its promise settles.
\<close>

datatype 'pc status = Suspended 'pc | Resolved | Rejected js_error

datatype stop_pc = StopPolling | StopFading fade_job fade_pc | StopFaded | StopUnloaded

text \<open>
  \<open>stop\<close>: nothing when idle or when neither a source nor a buffer is held; poll for
  \<open>idle\<close> when another stop is under way; otherwise enter \<open>stopping\<close>, fade when asked
  (\<open>fadeTo(this.volume, 0, 500)\<close>), then \<open>unload\<close>.
\<close>

definition stop :: "bool \<Rightarrow> real \<Rightarrow> AudioManager \<Rightarrow> stop_pc status \<times> AudioManager" where
  "stop fadeOut now m =
     (if state m = idle \<or> (sourceNode m = None \<and> audioBuffer m = None) then (Resolved, m)
      else if state m = stopping \<or> state m = unloading then (Suspended StopPolling, m)
      else
        let m1 = setState stopping m
        in if fadeOut
           then (case fadeTo (volume m1) 0 500 now m1 of
                   (None, m2) \<Rightarrow> (Suspended StopFaded, m2)
                 | (Some job, m2) \<Rightarrow> (Suspended (StopFading job FadeFrame), m2))
           else (Suspended StopUnloaded, unload m1))"

fun stop_resume :: "signal \<Rightarrow> stop_pc \<Rightarrow> AudioManager \<Rightarrow> stop_pc status \<times> AudioManager" where
  "stop_resume sig StopPolling m =
     (if state m = idle then (Resolved, m) else (Suspended StopPolling, m))"
| "stop_resume sig (StopFading job fpc) m =
     (case fade_resume sig job fpc m of
        (None, m1) \<Rightarrow> (Suspended StopFaded, m1)
      | (Some fpc1, m1) \<Rightarrow> (Suspended (StopFading job fpc1), m1))"
| "stop_resume sig StopFaded m = (Suspended StopUnloaded, unload m)"
| "stop_resume sig StopUnloaded m = (Resolved, m)"

text \<open>
  One invocation of \<open>play\<close>: its stamp \<open>myTransitionId\<close>, its arguments, and the place
  where it waits. \<open>PlayStopping (Some pc)\<close> waits for the inner \<open>stop()\<close>, which itself
  waits at \<open>pc\<close>; \<open>PlayStopping None\<close> is the continuation of \<open>await this.stop()\<close> once
  \<open>stop\<close> has returned. The three awaits of the load are \<open>fetch\<close>,
  \<open>response.arrayBuffer()\<close> and \<open>decodeAudioData\<close>; \<open>PlaySettling\<close> is the last await
  (\<open>fadeTo\<close> resolved or \<open>setVolume\<close> returned).
\<close>

record play_call =
  myTransitionId :: nat
  play_url :: string
  play_fadeIn :: bool

datatype play_pc =
    PlayStopping "stop_pc option"
  | PlayFetching
  | PlayReadingBody
  | PlayDecoding
  | PlayFadingIn fade_job fade_pc
  | PlaySettling

text \<open>Entry of \<open>play\<close>: \<open>++this.transitionId\<close>, then \<open>await this.stop()\<close>.\<close>

definition play :: "string \<Rightarrow> bool \<Rightarrow> real \<Rightarrow> AudioManager \<Rightarrow> (play_call \<times> play_pc) \<times> AudioManager" where
  "play url fadeIn now m =
     (let m1 = m\<lparr> transitionId := Suc (transitionId m) \<rparr>;
          c = \<lparr> myTransitionId = transitionId m1, play_url = url, play_fadeIn = fadeIn \<rparr>
      in case stop True now m1 of
           (Suspended pc, m2) \<Rightarrow> ((c, PlayStopping (Some pc)), m2)
         | (_, m2) \<Rightarrow> ((c, PlayStopping None), m2))"

text \<open>
  After \<open>await this.stop()\<close>: return when superseded; otherwise record the URL, enter
  \<open>loading\<close>, create the context when there is none (the constructor may throw, which
  the \<open>catch\<close> turns into \<open>cleanup\<close> and a rejection) and issue the fetch.
\<close>

definition play_begin :: "signal \<Rightarrow> play_call \<Rightarrow> AudioManager \<Rightarrow> play_pc status \<times> AudioManager" where
  "play_begin sig c m =
     (if myTransitionId c \<noteq> transitionId m then (Resolved, m)
      else
        let m1 = setState loading (m\<lparr> currentUrl := Some (play_url c) \<rparr>)
        in case audioContext m1 of
             Some _ \<Rightarrow>
               (Suspended PlayFetching, m1\<lparr> effects := effects m1 @ [FetchIssued (play_url c)] \<rparr>)
           | None \<Rightarrow>
               (case sig of
                  PlatformThrows e \<Rightarrow> (Rejected e, cleanup m1)
                | _ \<Rightarrow>
                    (Suspended PlayFetching,
                     m1\<lparr> audioContext := Some (fresh m1), fresh := Suc (fresh m1),
                         effects := effects m1 @ [ContextCreated (fresh m1), FetchIssued (play_url c)] \<rparr>)))"

text \<open>
  After the decode: store the buffer; when superseded, \<open>cleanup\<close> and return; otherwise
  enter \<open>ready\<close>, build source and gain (a fresh gain node has value 1), start the
  source, enter \<open>playing\<close>, and fade in or set the volume. A missing context makes
  \<open>this.audioContext.createBufferSource()\<close> a TypeError; that and any exception of the
  platform calls up to \<open>start(0)\<close> end in the \<open>catch\<close>.
\<close>

definition play_decoded :: "signal \<Rightarrow> real \<Rightarrow> play_call \<Rightarrow> AudioManager \<Rightarrow> play_pc status \<times> AudioManager" where
  "play_decoded sig now c m =
     (let m1 = m\<lparr> audioBuffer := Some (play_url c) \<rparr>
      in if myTransitionId c \<noteq> transitionId m1 then (Resolved, cleanup m1)
         else
           let m2 = setState ready m1
           in case audioContext m2 of
                None \<Rightarrow> (Rejected ''TypeError'', cleanup m2)
              | Some _ \<Rightarrow>
                  (case sig of
                     PlatformThrows e \<Rightarrow> (Rejected e, cleanup m2)
                   | _ \<Rightarrow>
                       let m3 = m2\<lparr> sourceNode := audioBuffer m2, gainNode := Some 1,
                                     effects := effects m2 @ [SourceStarted (myTransitionId c) (play_url c)] \<rparr>;
                           m4 = setState playing m3
                       in if play_fadeIn c
                          then (case fadeTo 0 (volume m4) 500 now m4 of
                                  (None, m5) \<Rightarrow> (Suspended PlaySettling, m5)
                                | (Some job, m5) \<Rightarrow> (Suspended (PlayFadingIn job FadeFrame), m5))
                          else (Suspended PlaySettling, setVolume (volume m4) m4)))"

fun play_resume :: "signal \<Rightarrow> real \<Rightarrow> play_call \<Rightarrow> play_pc \<Rightarrow> AudioManager \<Rightarrow> play_pc status \<times> AudioManager" where
  "play_resume sig now c (PlayStopping (Some spc)) m =
     (case stop_resume sig spc m of
        (Suspended spc1, m1) \<Rightarrow> (Suspended (PlayStopping (Some spc1)), m1)
      | (_, m1) \<Rightarrow> (Suspended (PlayStopping None), m1))"
| "play_resume sig now c (PlayStopping None) m = play_begin sig c m"
| "play_resume (Failed e) now c PlayFetching m = (Rejected e, cleanup m)"
| "play_resume sig now c PlayFetching m = (Suspended PlayReadingBody, m)"
| "play_resume (Failed e) now c PlayReadingBody m = (Rejected e, cleanup m)"
| "play_resume sig now c PlayReadingBody m =
     (case audioContext m of
        None \<Rightarrow> (Rejected ''TypeError'', cleanup m)
      | Some _ \<Rightarrow> (Suspended PlayDecoding, m))"
| "play_resume (Failed e) now c PlayDecoding m = (Rejected e, cleanup m)"
| "play_resume sig now c PlayDecoding m = play_decoded sig now c m"
| "play_resume sig now c (PlayFadingIn job fpc) m =
     (case fade_resume sig job fpc m of
        (None, m1) \<Rightarrow> (Suspended PlaySettling, m1)
      | (Some fpc1, m1) \<Rightarrow> (Suspended (PlayFadingIn job fpc1), m1))"
| "play_resume sig now c PlaySettling m = (Resolved, m)"

text \<open>\<open>dispose\<close>: \<open>await this.stop(); this.cleanup();\<close>\<close>

definition dispose :: "real \<Rightarrow> AudioManager \<Rightarrow> stop_pc option \<times> AudioManager" where
  "dispose now m =
     (case stop True now m of
        (Suspended pc, m1) \<Rightarrow> (Some pc, m1)
      | (_, m1) \<Rightarrow> (None, m1))"

fun dispose_resume :: "signal \<Rightarrow> stop_pc option \<Rightarrow> AudioManager \<Rightarrow> stop_pc option status \<times> AudioManager" where
  "dispose_resume sig (Some spc) m =
     (case stop_resume sig spc m of
        (Suspended spc1, m1) \<Rightarrow> (Suspended (Some spc1), m1)
      | (_, m1) \<Rightarrow> (Suspended None, m1))"
| "dispose_resume sig None m = (Resolved, cleanup m)"

subsection \<open>The engine under interleaved calls\<close>

text \<open>
  The engine together with its invocations in flight. An event is a call of a public
  method or the resumption of one suspended invocation; JavaScript runs each to the
  next \<open>await\<close> without interruption. Every order of resumptions is allowed here, which
  covers the orders the event loop can produce. Each event carries the reading of
  \<open>performance.now()\<close> at that moment.
\<close>

datatype task = PlayTask play_call play_pc | StopTask stop_pc | DisposeTask "stop_pc option"

datatype call = Play string bool | Stop bool | SetMuted bool | Dispose

datatype event = Call call | Resume nat signal

record system =
  manager :: AudioManager
  tasks :: "task status list"

definition newSystem :: system where
  "newSystem = \<lparr> manager = newAudioManager, tasks = [] \<rparr>"

fun task_resume :: "signal \<Rightarrow> real \<Rightarrow> task \<Rightarrow> AudioManager \<Rightarrow> task status \<times> AudioManager" where
  "task_resume sig now (PlayTask c pc) m =
     (case play_resume sig now c pc m of
        (Suspended pc1, m1) \<Rightarrow> (Suspended (PlayTask c pc1), m1)
      | (Resolved, m1) \<Rightarrow> (Resolved, m1)
      | (Rejected e, m1) \<Rightarrow> (Rejected e, m1))"
| "task_resume sig now (StopTask pc) m =
     (case stop_resume sig pc m of
        (Suspended pc1, m1) \<Rightarrow> (Suspended (StopTask pc1), m1)
      | (Resolved, m1) \<Rightarrow> (Resolved, m1)
      | (Rejected e, m1) \<Rightarrow> (Rejected e, m1))"
| "task_resume sig now (DisposeTask pc) m =
     (case dispose_resume sig pc m of
        (Suspended pc1, m1) \<Rightarrow> (Suspended (DisposeTask pc1), m1)
      | (Resolved, m1) \<Rightarrow> (Resolved, m1)
      | (Rejected e, m1) \<Rightarrow> (Rejected e, m1))"

fun step :: "real \<times> event \<Rightarrow> system \<Rightarrow> system" where
  "step (now, Call (Play url fadeIn)) s =
     (case play url fadeIn now (manager s) of
        ((c, pc), m1) \<Rightarrow> \<lparr> manager = m1, tasks = tasks s @ [Suspended (PlayTask c pc)] \<rparr>)"
| "step (now, Call (Stop fadeOut)) s =
     (case stop fadeOut now (manager s) of
        (Suspended pc, m1) \<Rightarrow> \<lparr> manager = m1, tasks = tasks s @ [Suspended (StopTask pc)] \<rparr>
      | (Resolved, m1) \<Rightarrow> \<lparr> manager = m1, tasks = tasks s @ [Resolved] \<rparr>
      | (Rejected e, m1) \<Rightarrow> \<lparr> manager = m1, tasks = tasks s @ [Rejected e] \<rparr>)"
| "step (now, Call (SetMuted muted)) s =
     \<lparr> manager = setMuted muted (manager s), tasks = tasks s @ [Resolved] \<rparr>"
| "step (now, Call Dispose) s =
     (case dispose now (manager s) of
        (pc, m1) \<Rightarrow> \<lparr> manager = m1, tasks = tasks s @ [Suspended (DisposeTask pc)] \<rparr>)"
| "step (now, Resume i sig) s =
     (if i < length (tasks s)
      then (case tasks s ! i of
              Suspended t \<Rightarrow>
                (case task_resume sig now t (manager s) of
                   (st, m1) \<Rightarrow> \<lparr> manager = m1, tasks = (tasks s)[i := st] \<rparr>)
            | _ \<Rightarrow> s)
      else s)"

definition run :: "(real \<times> event) list \<Rightarrow> system \<Rightarrow> system" where
  "run evs s = fold step evs s"

subsection \<open>Observations on the engine\<close>

text \<open>
  \<open>starts_of s m\<close>: the playback starts that the invocation stamped \<open>s\<close> has caused.
  \<open>all_starts m\<close>: every playback start so far. \<open>released m\<close>: nothing of a playback
  graph is held and the engine is idle. \<open>fading\<close>: an invocation that is inside a
  volume ramp.
\<close>

fun started_by :: "nat \<Rightarrow> effect \<Rightarrow> bool" where
  "started_by s (SourceStarted s' u) = (s' = s)"
| "started_by s _ = False"

definition starts_of :: "nat \<Rightarrow> AudioManager \<Rightarrow> effect list" where
  "starts_of s m = filter (started_by s) (effects m)"

fun is_start :: "effect \<Rightarrow> bool" where
  "is_start (SourceStarted s u) = True"
| "is_start _ = False"

definition all_starts :: "AudioManager \<Rightarrow> effect list" where
  "all_starts m = filter is_start (effects m)"

definition released :: "AudioManager \<Rightarrow> bool" where
  "released m \<longleftrightarrow>
     state m = idle \<and> audioContext m = None \<and> audioBuffer m = None \<and> sourceNode m = None \<and>
     gainNode m = None \<and> currentUrl m = None \<and> fadeTimeout m = None"

fun closed_context :: "AudioManager \<Rightarrow> AudioManager \<Rightarrow> bool" where
  "closed_context m m' =
     (case audioContext m of None \<Rightarrow> True | Some c \<Rightarrow> ContextClosed c \<in> set (effects m'))"

fun stop_fading :: "stop_pc \<Rightarrow> bool" where
  "stop_fading (StopFading job fpc) = True"
| "stop_fading _ = False"

fun play_fading :: "play_pc \<Rightarrow> bool" where
  "play_fading (PlayFadingIn job fpc) = True"
| "play_fading (PlayStopping (Some pc)) = stop_fading pc"
| "play_fading _ = False"

fun fading :: "task status \<Rightarrow> bool" where
  "fading (Suspended (PlayTask c pc)) = play_fading pc"
| "fading (Suspended (StopTask pc)) = stop_fading pc"
| "fading (Suspended (DisposeTask (Some pc))) = stop_fading pc"
| "fading _ = False"

text \<open>
  \<open>fails_released e m r\<close>: the outcome \<open>r\<close> of a resumption from \<open>m\<close> is a rejection with
  \<open>e\<close> that leaves the engine released, with the context of \<open>m\<close> closed and no playback
  started.
\<close>

definition fails_released :: "js_error \<Rightarrow> AudioManager \<Rightarrow> play_pc status \<times> AudioManager \<Rightarrow> bool" where
  "fails_released e m r \<longleftrightarrow>
     fst r = Rejected e \<and> released (snd r) \<and> closed_context m (snd r) \<and>
     all_starts (snd r) = all_starts m"

text \<open>
  \<open>passes s m m'\<close>: from \<open>m\<close> to \<open>m'\<close> the field \<open>sound\<close> is untouched, the transition
  counter has not gone down and, when the stamp \<open>s\<close> is already behind the counter,
  the invocation stamped \<open>s\<close> has started nothing.
\<close>

definition passes :: "nat \<Rightarrow> AudioManager \<Rightarrow> AudioManager \<Rightarrow> bool" where
  "passes s m m' \<longleftrightarrow>
     sound m' = sound m \<and> transitionId m \<le> transitionId m' \<and>
     (s < transitionId m \<longrightarrow> starts_of s m' = starts_of s m)"

text \<open>
  Two engines used as concrete inputs below: one that is playing \<open>a.mp3\<close> at full
  volume, and the system in which \<open>play(a.mp3)\<close> waits for its decode while a later
  \<open>play(b.mp3)\<close> waits for its fetch.
\<close>

definition playingEngine :: AudioManager where
  "playingEngine =
     newAudioManager\<lparr> audioContext := Some 1, audioBuffer := Some ''a.mp3'',
       sourceNode := Some ''a.mp3'', gainNode := Some 1, state := playing,
       currentUrl := Some ''a.mp3'', transitionId := 1 \<rparr>"

definition raceSystem :: system where
  "raceSystem =
     \<lparr> manager = newAudioManager\<lparr> audioContext := Some 1, state := loading,
         currentUrl := Some ''b.mp3'', transitionId := 2,
         effects := [StateChanged loading, ContextCreated 1, FetchIssued ''a.mp3'',
                     StateChanged loading, FetchIssued ''b.mp3''], fresh := 2 \<rparr>,
       tasks = [Suspended (PlayTask \<lparr> myTransitionId = 1, play_url = ''a.mp3'', play_fadeIn = True \<rparr> PlayDecoding),
                Suspended (PlayTask \<lparr> myTransitionId = 2, play_url = ''b.mp3'', play_fadeIn = True \<rparr> PlayFetching)] \<rparr>"

text \<open>
  \<open>quiet s\<close>: \<open>sound\<close> is unset and no invocation is inside a volume ramp. Two more
  concrete inputs: an engine that is loading \<open>a.mp3\<close>, and the invocation of \<open>play\<close>
  that loads it.
\<close>

definition quiet :: "system \<Rightarrow> bool" where
  "quiet s \<longleftrightarrow> sound (manager s) = None \<and> \<not> list_ex fading (tasks s)"

definition loadingEngine :: AudioManager where
  "loadingEngine =
     newAudioManager\<lparr> audioContext := Some 1, state := loading,
       currentUrl := Some ''a.mp3'', transitionId := 1,
       effects := [StateChanged loading, ContextCreated 1, FetchIssued ''a.mp3''], fresh := 2 \<rparr>"

definition call1 :: play_call where
  "call1 = \<lparr> myTransitionId = 1, play_url = ''a.mp3'', play_fadeIn = True \<rparr>"

text \<open>
  \<open>loadToStart url fadeIn\<close>: \<open>play(url)\<close> on a new engine followed by the completion of
  its four awaits up to the start of the source (its own \<open>stop()\<close>, \<open>fetch\<close>,
  \<open>arrayBuffer()\<close>, \<open>decodeAudioData\<close>). \<open>stopDuringLoad url fadeIn fadeOut k\<close> is the
  same run with a call of \<open>stop(fadeOut)\<close> after \<open>k\<close> of these completions: for \<open>k = 0\<close>
  while \<open>play\<close> awaits its own \<open>stop()\<close>, for \<open>k = 1, 2, 3\<close> while it awaits the
  fetch, the body and the decode.
\<close>

definition loadToStart :: "string \<Rightarrow> bool \<Rightarrow> (real \<times> event) list" where
  "loadToStart url fadeIn =
     [(0, Call (Play url fadeIn)), (1, Resume 0 Settled), (2, Resume 0 Settled),
      (3, Resume 0 Settled), (4, Resume 0 Settled)]"

definition stopDuringLoad :: "string \<Rightarrow> bool \<Rightarrow> bool \<Rightarrow> nat \<Rightarrow> (real \<times> event) list" where
  "stopDuringLoad url fadeIn fadeOut k =
     take (Suc k) (loadToStart url fadeIn) @ [(real k + 1 / 2, Call (Stop fadeOut))] @
     drop (Suc k) (loadToStart url fadeIn)"


section \<open>The feed pages\<close>

text \<open>
  Two pages implement the feed: the page that drives the audio engine (the unnamed
  source file that imports \<open>AudioManager\<close>; its definitions carry the source's
  names) and \<open>src/pages/Reels.tsx\<close>, which plays an \<open>audio\<close> element directly (its
  definitions carry the suffix \<open>_pages\<close>). Both are React components: the state
  variables and refs of the component are the fields of one record, an event handler
  or effect body is a function on that record, and what an awaited promise or a timer
  does is an argument of the function.
\<close>

subsection \<open>Media elements\<close>

text \<open>
  The properties of an \<open>HTMLMediaElement\<close> that the pages read or write; \<open>loads\<close> counts
  the calls of \<open>load()\<close>. \<open>play()\<close> returns a promise: when it resolves the element is
  playing, when it rejects (autoplay policy) nothing has changed.
\<close>

record MediaElement =
  muted :: bool
  el_volume :: real
  paused :: bool
  currentTime :: real
  src :: string
  readyState :: nat
  loads :: nat

definition el_play :: "bool \<Rightarrow> MediaElement \<Rightarrow> MediaElement" where
  "el_play resolves v = (if resolves then v\<lparr> paused := False \<rparr> else v)"

definition el_pause :: "MediaElement \<Rightarrow> MediaElement" where
  "el_pause v = v\<lparr> paused := True \<rparr>"

definition el_load :: "MediaElement \<Rightarrow> MediaElement" where
  "el_load v = v\<lparr> loads := Suc (loads v), readyState := 0 \<rparr>"

text \<open>\<open>String.prototype.includes\<close>.\<close>

fun str_includes :: "string \<Rightarrow> string \<Rightarrow> bool" where
  "str_includes [] n = (n = [])"
| "str_includes (c # s) n = (take (length n) (c # s) = n \<or> str_includes s n)"

text \<open>Truthiness of an optional string: present and not empty.\<close>

fun truthy :: "string option \<Rightarrow> bool" where
  "truthy None = False"
| "truthy (Some s) = (s \<noteq> [])"

subsection \<open>Feed items and page state\<close>

datatype js_number = NaN | Num real

record EmbeddedMusic =
  em_url :: string
  em_title :: "string option"
  em_artist :: "string option"

record Reel =
  reel_id :: string
  videoUrl :: "string option"
  posterImage :: string
  galleryImages :: "string list option"
  productId :: "js_number option"
  primaryProductId :: string
  reel_music :: "EmbeddedMusic option"
  music_audio_url :: "string option"
  music_url :: "string option"

record Track =
  track_url :: string
  track_title :: string
  track_artist :: string
  startAt :: "real option"
  endAt :: "real option"

datatype direction = up | down

text \<open>
  An audio playback attempt is a \<open>play\<close> request to the engine or a call of \<open>play()\<close> on
  the page's \<open>audio\<close> element. The engine instance behind \<open>audioManagerRef\<close> is
  represented by the calls it has received.
\<close>

datatype audio_attempt = EnginePlay string | ElementPlay

record Reels =
  reelStates :: "Reel list"
  currentReelIndex :: nat
  isPlaying :: bool
  isMuted_ui :: bool
  music :: "Track option"
  hasUserInteracted :: bool
  videoError :: bool
  showControls :: bool
  slideDirection :: "direction option"
  lastScrollTime :: int
  transitionIdRef :: nat
  prevIndexRef :: nat
  pendingAutoPlay :: bool
  preFadeActive :: bool
  videoRef :: "MediaElement option"
  audioRef :: "MediaElement option"
  audioManagerRef :: "call list option"
  pendingCommits :: "direction list"
  commits :: nat
  attempts :: "audio_attempt list"

text \<open>
  The initial values of the engine page: \<open>useState(0)\<close>, \<open>useState(true)\<close> for
  \<open>isPlaying\<close> and \<open>isMuted\<close>, \<open>useRef<AudioManager | null>(null)\<close>, and so on.
  \<open>pendingCommits\<close> are the navigation handlers suspended in their 50 ms delay,
  \<open>commits\<close> counts the calls of \<open>setCurrentReelIndex\<close> by the handlers.
\<close>

definition newReels :: "Reel list \<Rightarrow> Reels" where
  "newReels rs =
     \<lparr> reelStates = rs, currentReelIndex = 0, isPlaying = True, isMuted_ui = True,
       music = None, hasUserInteracted = False, videoError = False, showControls = False,
       slideDirection = None, lastScrollTime = 0, transitionIdRef = 0, prevIndexRef = 0,
       pendingAutoPlay = False, preFadeActive = False, videoRef = None, audioRef = None,
       audioManagerRef = None, pendingCommits = [], commits = 0, attempts = [] \<rparr>"

definition currentReel :: "Reels \<Rightarrow> Reel option" where
  "currentReel p =
     (if currentReelIndex p < length (reelStates p)
      then Some (reelStates p ! currentReelIndex p) else None)"

text \<open>\<open>currentReel?.videoUrl\<close> and \<open>music?.url\<close> as conditions.\<close>

definition hasVideoUrl :: "Reels \<Rightarrow> bool" where
  "hasVideoUrl p = (case currentReel p of None \<Rightarrow> False | Some r \<Rightarrow> truthy (videoUrl r))"

definition musicUrl :: "Reels \<Rightarrow> string option" where
  "musicUrl p =
     (case music p of
        None \<Rightarrow> None
      | Some t \<Rightarrow> (if track_url t = [] then None else Some (track_url t)))"

text \<open>
  What React mounts: the \<open>video\<close> element (attributes \<open>muted\<close>, \<open>autoPlay\<close>, \<open>loop\<close>)
  exists while the item has a video and no video error, the \<open>audio\<close> element (no
  \<open>autoPlay\<close>) while a music URL is resolved. \<open>renderMedia\<close> keeps an element that is
  mounted; \<open>remountMedia\<close> is the render after an index change, where the \<open>key\<close> of
  the enclosing container changes and both elements are created anew.
\<close>

definition newVideoElement :: "string \<Rightarrow> MediaElement" where
  "newVideoElement u =
     \<lparr> muted = True, el_volume = 1, paused = True, currentTime = 0, src = u,
       readyState = 0, loads = 0 \<rparr>"

definition newAudioElement :: "string \<Rightarrow> MediaElement" where
  "newAudioElement u =
     \<lparr> muted = False, el_volume = 1, paused = True, currentTime = 0, src = u,
       readyState = 0, loads = 0 \<rparr>"

definition currentVideoUrl :: "Reels \<Rightarrow> string" where
  "currentVideoUrl p =
     (case currentReel p of
        None \<Rightarrow> []
      | Some r \<Rightarrow> (case videoUrl r of None \<Rightarrow> [] | Some u \<Rightarrow> u))"

definition renderMedia :: "Reels \<Rightarrow> Reels" where
  "renderMedia p =
     p\<lparr> videoRef :=
           (if hasVideoUrl p \<and> \<not> videoError p
            then (case videoRef p of
                    None \<Rightarrow> Some (newVideoElement (currentVideoUrl p))
                  | Some v \<Rightarrow> Some v)
            else None),
         audioRef :=
           (case musicUrl p of
              None \<Rightarrow> None
            | Some u \<Rightarrow> (case audioRef p of
                          None \<Rightarrow> Some (newAudioElement u)
                        | Some a \<Rightarrow> Some (a\<lparr> src := u \<rparr>))) \<rparr>"

definition remountMedia :: "Reels \<Rightarrow> Reels" where
  "remountMedia p = renderMedia (p\<lparr> videoRef := None, audioRef := None \<rparr>)"

subsection \<open>The engine page: playback\<close>

text \<open>
  What the environment decides during one run of the playback effect: whether the
  awaited \<open>canplay\<close> arrives, whether the calls of \<open>play()\<close> resolve, whether the
  engine's \<open>play\<close> resolves, and at which of the checks
  \<open>myTransitionId !== transitionIdRef.current\<close> the run finds itself superseded
  (0: in the \<open>canplay\<close> listener, 1: after the stop, 2: after the 50 ms delay,
  3: after the audio start).
\<close>

record play_env =
  canPlay :: bool
  videoPlays :: bool
  videoRetryPlays :: bool
  audioPlays :: bool
  audioRetryPlays :: bool
  enginePlays :: bool
  superseded :: "nat \<Rightarrow> bool"

definition fadeOutAndStopPrevious :: "Reels \<Rightarrow> Reels" where
  "fadeOutAndStopPrevious p =
     (case audioManagerRef p of
        None \<Rightarrow> p
      | Some calls \<Rightarrow>
          (if prevIndexRef p \<noteq> currentReelIndex p
           then p\<lparr> audioManagerRef := Some (calls @ [Stop True]) \<rparr>
           else p))"

text \<open>
  \<open>startAudioPlayback\<close>: return without a music URL or without an engine, or when an
  attempt is pending; after the delay return when superseded; otherwise
  \<open>play(music.url, {fadeIn: true})\<close> and, when that resolves, \<open>setMuted(isMuted)\<close>.
  \<open>finally\<close> clears the pending flag. The function does not read
  \<open>hasUserInteracted\<close>.
\<close>

definition startAudioPlayback :: "play_env \<Rightarrow> Reels \<Rightarrow> Reels" where
  "startAudioPlayback env p =
     (case musicUrl p of
        None \<Rightarrow> p
      | Some u \<Rightarrow>
          (case audioManagerRef p of
             None \<Rightarrow> p
           | Some calls \<Rightarrow>
               (if pendingAutoPlay p then p
                else if superseded env 2 then p\<lparr> pendingAutoPlay := False \<rparr>
                else
                  p\<lparr> audioManagerRef :=
                        Some (if enginePlays env
                              then calls @ [Play u True, SetMuted (isMuted_ui p)]
                              else calls @ [Play u True]),
                      attempts := attempts p @ [EnginePlay u],
                      pendingAutoPlay := False \<rparr>)))"

text \<open>
  \<open>startVideoPlayback\<close>: wait for \<open>canplay\<close> when the element is not ready, mute the
  element and set its volume to 0, \<open>play()\<close>, and on rejection mute again and retry.
\<close>

definition startVideoPlayback :: "play_env \<Rightarrow> Reels \<Rightarrow> Reels" where
  "startVideoPlayback env p =
     (case videoRef p of
        None \<Rightarrow> p
      | Some v \<Rightarrow>
          (if \<not> hasVideoUrl p then p
           else if readyState v < 3 \<and> \<not> canPlay env then p
           else
             let v1 = v\<lparr> muted := True, el_volume := 0 \<rparr>;
                 v2 = (if videoPlays env then el_play True v1
                       else el_play (videoRetryPlays env) (v1\<lparr> muted := True \<rparr>))
             in p\<lparr> videoRef := Some v2, isPlaying := True \<rparr>))"

definition run_transition :: "play_env \<Rightarrow> Reels \<Rightarrow> Reels" where
  "run_transition env p =
     (let p1 = fadeOutAndStopPrevious p
      in if superseded env 1 then p1
         else
           let p2 = (if musicUrl p1 \<noteq> None then startAudioPlayback env p1 else p1)
           in if superseded env 3 then p2
              else if hasVideoUrl p2 then startVideoPlayback env p2 else p2)"

text \<open>
  The playback effect (dependencies: the video URL, the music URL,
  \<open>hasUserInteracted\<close> and the index): bump the transition id, reset the error and
  playing flags, and run the transition at once or when \<open>canplay\<close> arrives.
\<close>

definition playbackEffect :: "play_env \<Rightarrow> Reels \<Rightarrow> Reels" where
  "playbackEffect env p =
     (let p1 = p\<lparr> preFadeActive := False, transitionIdRef := Suc (transitionIdRef p),
                   videoError := False, isPlaying := True \<rparr>
      in case videoRef p1 of
           None \<Rightarrow> run_transition env p1
         | Some v \<Rightarrow>
             (if hasVideoUrl p1
              then (if readyState v \<ge> 3 then run_transition env p1
                    else if canPlay env \<and> \<not> superseded env 0 then run_transition env p1
                    else p1)
              else run_transition env p1))"

text \<open>The effect that records the index after each change of it.\<close>

definition trackIndexEffect :: "Reels \<Rightarrow> Reels" where
  "trackIndexEffect p = p\<lparr> prevIndexRef := currentReelIndex p \<rparr>"

subsection \<open>The engine page: controls\<close>

definition toggleMute :: "Reels \<Rightarrow> Reels" where
  "toggleMute p =
     (let newMutedState = \<not> isMuted_ui p;
          p1 = (case audioManagerRef p of
                  None \<Rightarrow> p
                | Some calls \<Rightarrow> p\<lparr> audioManagerRef := Some (calls @ [SetMuted newMutedState]) \<rparr>);
          p2 = (case videoRef p1 of
                  None \<Rightarrow> p1
                | Some v \<Rightarrow> p1\<lparr> videoRef := Some (v\<lparr> muted := True \<rparr>) \<rparr>)
      in p2\<lparr> isMuted_ui := newMutedState \<rparr>)"

definition togglePlay :: "play_env \<Rightarrow> Reels \<Rightarrow> Reels" where
  "togglePlay env p =
     (let p1 =
        (case videoRef p of
           Some v \<Rightarrow>
             (if hasVideoUrl p
              then (if isPlaying p
                    then p\<lparr> videoRef := Some (el_pause v),
                           audioRef := map_option el_pause (audioRef p) \<rparr>
                    else p\<lparr> videoRef := Some (el_play (videoPlays env) v),
                           audioRef := map_option (el_play (audioPlays env)) (audioRef p),
                           attempts := attempts p @ (case audioRef p of None \<Rightarrow> [] | Some a \<Rightarrow> [ElementPlay]) \<rparr>)
              else (case audioRef p of
                      None \<Rightarrow> p
                    | Some a \<Rightarrow>
                        (if musicUrl p = None then p
                         else if paused a
                         then p\<lparr> audioRef := Some (el_play (audioPlays env) a),
                                attempts := attempts p @ [ElementPlay] \<rparr>
                         else p\<lparr> audioRef := Some (el_pause a) \<rparr>)))
         | None \<Rightarrow>
             (case audioRef p of
                None \<Rightarrow> p
              | Some a \<Rightarrow>
                  (if musicUrl p = None then p
                   else if paused a
                   then p\<lparr> audioRef := Some (el_play (audioPlays env) a),
                          attempts := attempts p @ [ElementPlay] \<rparr>
                   else p\<lparr> audioRef := Some (el_pause a) \<rparr>)))
      in p1\<lparr> isPlaying := \<not> isPlaying p \<rparr>)"

definition strongStopAllMedia :: "Reels \<Rightarrow> Reels" where
  "strongStopAllMedia p =
     p\<lparr> audioRef :=
           map_option
             (\<lambda>a. (el_load (a\<lparr> paused := True, currentTime := 0, muted := True, src := [] \<rparr>))
                     \<lparr> el_volume := 0 \<rparr>)
             (audioRef p),
         videoRef :=
           map_option (\<lambda>v. v\<lparr> paused := True, currentTime := 0, muted := True \<rparr>) (videoRef p),
         pendingAutoPlay := False \<rparr>"

text \<open>
  The click handler of the media area: show the controls and, when no interaction has
  been recorded yet, record it and try to start audio (unmuted, muted on rejection)
  and video (muted).
\<close>

definition onClick_media :: "play_env \<Rightarrow> Reels \<Rightarrow> Reels" where
  "onClick_media env p =
     (let p1 = p\<lparr> showControls := True \<rparr>
      in if hasUserInteracted p1 then p1
         else
           let p2 = p1\<lparr> hasUserInteracted := True \<rparr>;
               p3 = (case audioRef p2 of
                       None \<Rightarrow> p2
                     | Some a \<Rightarrow>
                         (if musicUrl p2 = None then p2
                          else
                            let a1 = a\<lparr> muted := False \<rparr>;
                                a2 = (if audioPlays env then el_play True a1
                                      else el_play (audioRetryPlays env) (a1\<lparr> muted := True \<rparr>))
                            in p2\<lparr> audioRef := Some a2,
                                   attempts := attempts p2 @
                                     (if audioPlays env then [ElementPlay] else [ElementPlay, ElementPlay]) \<rparr>))
           in case videoRef p3 of
                None \<Rightarrow> p3
              | Some v \<Rightarrow>
                  (if hasVideoUrl p3
                   then p3\<lparr> videoRef := Some (el_play (videoPlays env) (v\<lparr> muted := True \<rparr>)) \<rparr>
                   else p3))"

text \<open>The document listener for the first \<open>pointerdown\<close> or \<open>keydown\<close>.\<close>

definition onFirstInteract :: "Reels \<Rightarrow> Reels" where
  "onFirstInteract p = p\<lparr> hasUserInteracted := True \<rparr>"

text \<open>The condition under which the ``Tap to enable sound'' overlay is rendered.\<close>

definition tapToEnableSound :: "Reels \<Rightarrow> bool" where
  "tapToEnableSound p \<longleftrightarrow> musicUrl p \<noteq> None \<and> \<not> hasUserInteracted p"

subsection \<open>The engine page: events of the video element and of the document\<close>

definition onWaiting :: "Reels \<Rightarrow> Reels" where
  "onWaiting p = p\<lparr> videoRef := map_option (\<lambda>v. v\<lparr> muted := True \<rparr>) (videoRef p) \<rparr>"

definition onStalled :: "Reels \<Rightarrow> Reels" where
  "onStalled p =
     p\<lparr> videoRef := map_option (\<lambda>v. v\<lparr> currentTime := max 0 (currentTime v - 1 / 10) \<rparr>) (videoRef p) \<rparr>"

definition onPlay :: "play_env \<Rightarrow> Reels \<Rightarrow> Reels" where
  "onPlay env p =
     (let p1 = p\<lparr> isPlaying := True \<rparr>
      in case audioRef p1 of
           None \<Rightarrow> p1
         | Some a \<Rightarrow>
             (if paused a then p1
              else p1\<lparr> audioRef :=
                         Some (el_play (audioPlays env)
                                 (a\<lparr> currentTime := (case videoRef p1 of None \<Rightarrow> 0 | Some v \<Rightarrow> currentTime v) \<rparr>)),
                       attempts := attempts p1 @ [ElementPlay] \<rparr>))"

definition onPause :: "Reels \<Rightarrow> Reels" where
  "onPause p = p\<lparr> isPlaying := False, audioRef := map_option el_pause (audioRef p) \<rparr>"

text \<open>\<open>onLoadedData\<close> and \<open>onCanPlayThrough\<close> have the same body.\<close>

definition onLoadedData :: "play_env \<Rightarrow> Reels \<Rightarrow> Reels" where
  "onLoadedData env p =
     (case videoRef p of
        None \<Rightarrow> p
      | Some v \<Rightarrow>
          (if paused v \<and> isPlaying p then p\<lparr> videoRef := Some (el_play (videoPlays env) v) \<rparr>
           else p))"

definition onError :: "Reels \<Rightarrow> Reels" where
  "onError p =
     (let p1 = p\<lparr> videoError := True \<rparr>
      in case videoRef p1 of
           None \<Rightarrow> p1
         | Some v \<Rightarrow>
             (if src v = [] then p1
              else p1\<lparr> videoRef :=
                         Some (el_load ((el_pause v)
                                 \<lparr> src := (if str_includes (src v) ''.mp4'' then src v else src v @ ''.mp4'') \<rparr>)) \<rparr>))"

definition onVisibilityChange :: "bool \<Rightarrow> play_env \<Rightarrow> Reels \<Rightarrow> Reels" where
  "onVisibilityChange hidden env p =
     (case videoRef p of
        None \<Rightarrow> p
      | Some v \<Rightarrow>
          (if hidden then p\<lparr> videoRef := Some (el_pause v), isPlaying := False \<rparr>
           else if hasVideoUrl p then p\<lparr> videoRef := Some (el_play (videoPlays env) v) \<rparr>
           else p))"

text \<open>
  \<open>preFadeCurrentAudio\<close>, started by a touch move or a wheel event: once per gesture,
  unmute the playing \<open>audio\<close> element, fade it to 0, pause and rewind it.
\<close>

definition preFadeCurrentAudio :: "Reels \<Rightarrow> Reels" where
  "preFadeCurrentAudio p =
     (if preFadeActive p then p
      else case audioRef p of
             None \<Rightarrow> p
           | Some a \<Rightarrow>
               (if paused a then p
                else p\<lparr> preFadeActive := True,
                       audioRef := Some (a\<lparr> muted := False, el_volume := 0, paused := True,
                                            currentTime := 0 \<rparr>) \<rparr>))"

subsection \<open>The engine page: navigation\<close>

definition scrollCooldown :: int where
  "scrollCooldown = 900"

text \<open>
  \<open>handleNextReel\<close> and \<open>handlePrevReel\<close> up to their \<open>await\<close>: the request is dropped
  on an empty feed or inside the cool-down; otherwise the time is recorded, all media
  are stopped, the music is cleared, the transition id is bumped and the handler
  suspends for 50 ms. \<open>commitNavigation\<close> is the rest of the oldest suspended handler:
  the direction and the functional update of the index.
\<close>

definition handleNextReel :: "int \<Rightarrow> Reels \<Rightarrow> Reels" where
  "handleNextReel now p =
     (if length (reelStates p) = 0 \<or> now - lastScrollTime p < scrollCooldown then p
      else (strongStopAllMedia (p\<lparr> lastScrollTime := now \<rparr>))
             \<lparr> music := None, transitionIdRef := Suc (transitionIdRef p),
               pendingCommits := pendingCommits p @ [up] \<rparr>)"

definition handlePrevReel :: "int \<Rightarrow> Reels \<Rightarrow> Reels" where
  "handlePrevReel now p =
     (if length (reelStates p) = 0 \<or> now - lastScrollTime p < scrollCooldown then p
      else (strongStopAllMedia (p\<lparr> lastScrollTime := now \<rparr>))
             \<lparr> music := None, transitionIdRef := Suc (transitionIdRef p),
               pendingCommits := pendingCommits p @ [down] \<rparr>)"

fun commitNavigation :: "Reels \<Rightarrow> Reels" where
  "commitNavigation p =
     (case pendingCommits p of
        [] \<Rightarrow> p
      | d # ds \<Rightarrow>
          p\<lparr> pendingCommits := ds, slideDirection := Some d, commits := Suc (commits p),
              currentReelIndex :=
                (case d of
                   up \<Rightarrow> (currentReelIndex p + 1) mod length (reelStates p)
                 | down \<Rightarrow> (currentReelIndex p + length (reelStates p) - 1) mod length (reelStates p)) \<rparr>)"

subsection \<open>The page \<open>src/pages/Reels.tsx\<close>\<close>

text \<open>
  This page has no engine: it plays the \<open>audio\<close> element itself and lets the video
  element carry sound. Its state starts unmuted, its video element is rendered with
  \<open>muted={isMuted}\<close>, and its navigation handlers commit synchronously with a
  cool-down of 500 ms.
\<close>

definition newReels_pages :: "Reel list \<Rightarrow> Reels" where
  "newReels_pages rs = (newReels rs)\<lparr> isMuted_ui := False \<rparr>"




text \<open>
  \<open>startAudioPlayback\<close> of this page: play the \<open>audio\<close> element with sound, and muted
  when that is rejected.
\<close>

definition startAudioPlayback_pages :: "play_env \<Rightarrow> Reels \<Rightarrow> Reels" where
  "startAudioPlayback_pages env p =
     (case audioRef p of
        None \<Rightarrow> p
      | Some a \<Rightarrow>
          (if musicUrl p = None \<or> pendingAutoPlay p then p
           else if audioPlays env
           then p\<lparr> audioRef := Some (el_play True (a\<lparr> muted := False \<rparr>)), isMuted_ui := False,
                  attempts := attempts p @ [ElementPlay], pendingAutoPlay := False \<rparr>
           else if audioRetryPlays env
           then p\<lparr> audioRef := Some (el_play True (a\<lparr> muted := True \<rparr>)), isMuted_ui := True,
                  attempts := attempts p @ [ElementPlay, ElementPlay], pendingAutoPlay := False \<rparr>
           else p\<lparr> audioRef := Some (a\<lparr> muted := True \<rparr>),
                  attempts := attempts p @ [ElementPlay, ElementPlay], pendingAutoPlay := False \<rparr>))"

text \<open>
  \<open>startVideoPlayback\<close> of this page: mute, \<open>play()\<close>, then restore the mute state
  \<open>isMuted\<close> that the effect captured when it ran (\<open>muted0\<close>).
\<close>

definition startVideoPlayback_pages :: "play_env \<Rightarrow> bool \<Rightarrow> Reels \<Rightarrow> Reels" where
  "startVideoPlayback_pages env muted0 p =
     (case videoRef p of
        None \<Rightarrow> p
      | Some v \<Rightarrow>
          (if \<not> hasVideoUrl p then p
           else if videoPlays env
           then p\<lparr> videoRef := Some ((el_play True (v\<lparr> muted := True \<rparr>))\<lparr> muted := muted0 \<rparr>),
                  isPlaying := True \<rparr>
           else p\<lparr> videoRef := Some (v\<lparr> muted := True \<rparr>) \<rparr>))"

text \<open>
  \<open>startPlayback\<close>: audio, then video, then, with both elements and a music URL, align
  the audio time, play the audio (unmuted, or muted on rejection) and unmute the
  video. A rejection of the muted retry leaves through the outer \<open>catch\<close>.
\<close>

definition startPlayback_pages :: "play_env \<Rightarrow> Reels \<Rightarrow> Reels" where
  "startPlayback_pages env p =
     (let muted0 = isMuted_ui p;
          p1 = (if musicUrl p \<noteq> None then startAudioPlayback_pages env p else p);
          p2 = (if hasVideoUrl p then startVideoPlayback_pages env muted0 p1 else p1)
      in case (videoRef p2, audioRef p2) of
           (Some v, Some a) \<Rightarrow>
             (if musicUrl p = None then p2\<lparr> isPlaying := True, pendingAutoPlay := False \<rparr>
              else
                let a1 = a\<lparr> currentTime := currentTime v \<rparr>
                in if audioPlays env
                   then p2\<lparr> audioRef := Some (el_play True (a1\<lparr> muted := False \<rparr>)),
                           videoRef := Some (v\<lparr> muted := False \<rparr>),
                           attempts := attempts p2 @ [ElementPlay],
                           isMuted_ui := False, isPlaying := True, pendingAutoPlay := False \<rparr>
                   else if audioRetryPlays env
                   then p2\<lparr> audioRef := Some (el_play True (a1\<lparr> muted := True \<rparr>)),
                           videoRef := Some (v\<lparr> muted := False \<rparr>),
                           attempts := attempts p2 @ [ElementPlay, ElementPlay],
                           isMuted_ui := False, isPlaying := True, pendingAutoPlay := False \<rparr>
                   else p2\<lparr> audioRef := Some (a1\<lparr> muted := True \<rparr>),
                           attempts := attempts p2 @ [ElementPlay, ElementPlay],
                           isPlaying := False, pendingAutoPlay := False \<rparr>)
         | _ \<Rightarrow> p2\<lparr> isPlaying := True, pendingAutoPlay := False \<rparr>)"

definition toggleMute_pages :: "play_env \<Rightarrow> Reels \<Rightarrow> Reels" where
  "toggleMute_pages env p =
     (let newMutedState = \<not> isMuted_ui p;
          p1 = (case videoRef p of
                  None \<Rightarrow> p
                | Some v \<Rightarrow>
                    (if hasVideoUrl p then p\<lparr> videoRef := Some (v\<lparr> muted := newMutedState \<rparr>) \<rparr> else p));
          p2 = (case audioRef p1 of
                  None \<Rightarrow> p1
                | Some a \<Rightarrow>
                    (if musicUrl p1 = None then p1
                     else if newMutedState then p1\<lparr> audioRef := Some (a\<lparr> muted := True \<rparr>) \<rparr>
                     else
                       let a1 = (case videoRef p1 of
                                   None \<Rightarrow> a\<lparr> muted := False \<rparr>
                                 | Some v \<Rightarrow>
                                     (if hasVideoUrl p1
                                      then a\<lparr> muted := False, currentTime := currentTime v \<rparr>
                                      else a\<lparr> muted := False \<rparr>))
                       in if audioPlays env
                          then p1\<lparr> audioRef := Some (el_play True a1),
                                  attempts := attempts p1 @ [ElementPlay] \<rparr>
                          else p1\<lparr> audioRef := Some (el_play (audioRetryPlays env) (a1\<lparr> muted := True \<rparr>)),
                                  attempts := attempts p1 @ [ElementPlay, ElementPlay] \<rparr>))
      in p2\<lparr> isMuted_ui := newMutedState \<rparr>)"

subsection \<open>Prices of a feed item's product\<close>

text \<open>
  The engine page computes the pair inside \<open>generateReelsFromProducts\<close>: the base is
  \<open>Number(product.price ?? 0)\<close>; without a sale price, or with one equal to the base,
  the base alone; otherwise the smaller value as price and the larger as original.
  \<open>src/pages/Reels.tsx\<close> trusts the field order: \<open>sale_price || price\<close> as price and,
  when the sale price is truthy (present and not 0), \<open>price\<close> as original.
\<close>

record Product =
  price :: "real option"
  sale_price :: "real option"

record PricePair =
  current :: "real option"
  original :: "real option"

definition generateReelsFromProducts_price :: "Product \<Rightarrow> PricePair" where
  "generateReelsFromProducts_price product =
     (let base = (case price product of None \<Rightarrow> 0 | Some x \<Rightarrow> x)
      in case sale_price product of
           None \<Rightarrow> \<lparr> current = Some base, original = None \<rparr>
         | Some alt \<Rightarrow>
             (if alt = base then \<lparr> current = Some base, original = None \<rparr>
              else \<lparr> current = Some (min base alt), original = Some (max base alt) \<rparr>))"

definition generateReelsFromProducts_price_pages :: "Product \<Rightarrow> PricePair" where
  "generateReelsFromProducts_price_pages product =
     (case sale_price product of
        None \<Rightarrow> \<lparr> current = price product, original = None \<rparr>
      | Some s \<Rightarrow>
          (if s = 0 then \<lparr> current = price product, original = None \<rparr>
           else \<lparr> current = Some s, original = price product \<rparr>))"

subsection \<open>Music resolution\<close>

text \<open>
  A row of \<open>product_music\<close> as the page selects it, the query the page builds, and
  what the backend answers (\<open>data\<close> is \<open>None\<close> when it is not an array). The
  backend is an argument \<open>service\<close> of the resolver: \<open>Inl e\<close> when the awaited query
  rejects. \<open>Number(s)\<close> on a string is the argument \<open>toNumber\<close>.
\<close>

record MusicRow =
  audio_url :: "string option"
  row_title :: "string option"
  row_artist :: "string option"
  start_at_seconds :: "real option"
  end_at_seconds :: "real option"

record MusicQuery =
  q_table :: string
  q_select :: string
  q_product_id :: real
  q_is_active :: bool
  q_order :: string
  q_ascending :: bool
  q_limit :: nat

record QueryResult =
  data :: "MusicRow list option"
  error :: "js_error option"

datatype backend_request = RpcCall string | SelectQuery MusicQuery

definition productMusicQuery :: "real \<Rightarrow> MusicQuery" where
  "productMusicQuery pid =
     \<lparr> q_table = ''product_music'',
       q_select = ''audio_url,title,artist,start_at_seconds,end_at_seconds'',
       q_product_id = pid, q_is_active = True, q_order = ''priority'', q_ascending = True,
       q_limit = 1 \<rparr>"

text \<open>\<open>a || b\<close> on an optional string with a default.\<close>

definition orDefault :: "string option \<Rightarrow> string \<Rightarrow> string" where
  "orDefault s d = (case s of None \<Rightarrow> d | Some x \<Rightarrow> (if x = [] then d else x))"

text \<open>
  \<open>productId ?? primaryProductId\<close>, converted with \<open>Number\<close> when it is the string.
  \<open>primaryProductId\<close> is a required string of the item, so the branch of \<open>fetchMusic\<close>
  for a raw id that is \<open>null\<close> or \<open>undefined\<close> has no input.
\<close>

definition reelProductId :: "(string \<Rightarrow> js_number) \<Rightarrow> Reel \<Rightarrow> js_number" where
  "reelProductId toNumber r =
     (case productId r of
        Some n \<Rightarrow> n
      | None \<Rightarrow> toNumber (primaryProductId r))"

text \<open>\<open>Array.isArray(data) && data.length > 0 ? data[0] : null\<close>\<close>

definition firstRow :: "QueryResult \<Rightarrow> MusicRow option" where
  "firstRow res =
     (case data res of
        None \<Rightarrow> None
      | Some [] \<Rightarrow> None
      | Some (row # rest) \<Rightarrow> Some row)"

definition trackOfRow :: "MusicRow \<Rightarrow> Track option" where
  "trackOfRow row =
     (case audio_url row of
        None \<Rightarrow> None
      | Some u \<Rightarrow>
          (if u = [] then None
           else Some \<lparr> track_url = u,
                       track_title = orDefault (row_title row) ''Background Music'',
                       track_artist = orDefault (row_artist row) ''Ehsaas Jewels'',
                       startAt = Some (case start_at_seconds row of None \<Rightarrow> 0 | Some x \<Rightarrow> x),
                       endAt = end_at_seconds row \<rparr>))"

text \<open>
  What \<open>fetchMusic\<close> does with the answer: a rejected query, an error, no first row
  or a first row without \<open>audio_url\<close> all end in \<open>setMusic(null)\<close>.
\<close>

definition musicOfAnswer :: "js_error + QueryResult \<Rightarrow> Track option" where
  "musicOfAnswer ans =
     (case ans of
        Inl e \<Rightarrow> None
      | Inr res \<Rightarrow>
          (case error res of
             Some e \<Rightarrow> None
           | None \<Rightarrow> (case firstRow res of None \<Rightarrow> None | Some row \<Rightarrow> trackOfRow row)))"

text \<open>
  \<open>fetchMusic\<close> of the engine page: the new page state and the requests sent to the
  backend. Without a current item nothing happens; a product id that is \<open>NaN\<close> clears
  the music without a request.
\<close>

definition fetchMusic ::
  "(string \<Rightarrow> js_number) \<Rightarrow> (MusicQuery \<Rightarrow> js_error + QueryResult) \<Rightarrow> Reels \<Rightarrow> Reels \<times> backend_request list" where
  "fetchMusic toNumber service p =
     (case currentReel p of
        None \<Rightarrow> (p, [])
      | Some r \<Rightarrow>
          (case reelProductId toNumber r of
             NaN \<Rightarrow> (p\<lparr> music := None \<rparr>, [])
           | Num n \<Rightarrow>
               (p\<lparr> music := musicOfAnswer (service (productMusicQuery n)) \<rparr>,
                [SelectQuery (productMusicQuery n)])))"

text \<open>
  \<open>fetchMusic\<close> of \<open>src/pages/Reels.tsx\<close>: the same, with a call of the RPC
  \<open>get_table_info\<close> (whose outcome is ignored) before the query.
\<close>

definition fetchMusic_pages ::
  "(string \<Rightarrow> js_number) \<Rightarrow> (MusicQuery \<Rightarrow> js_error + QueryResult) \<Rightarrow> Reels \<Rightarrow> Reels \<times> backend_request list" where
  "fetchMusic_pages toNumber service p =
     (case currentReel p of
        None \<Rightarrow> (p, [])
      | Some r \<Rightarrow>
          (case reelProductId toNumber r of
             NaN \<Rightarrow> (p\<lparr> music := None \<rparr>, [])
           | Num n \<Rightarrow>
               (p\<lparr> music := musicOfAnswer (service (productMusicQuery n)) \<rparr>,
                [RpcCall ''get_table_info'', SelectQuery (productMusicQuery n)])))"

text \<open>
  The music effect, the same in both pages up to the \<open>fetchMusic\<close> it calls: an item
  that carries \<open>music.url\<close> sets the music from it; otherwise \<open>fetchMusic\<close>.
\<close>

definition embeddedUrl :: "Reels \<Rightarrow> EmbeddedMusic option" where
  "embeddedUrl p =
     (case currentReel p of
        None \<Rightarrow> None
      | Some r \<Rightarrow>
          (case reel_music r of
             None \<Rightarrow> None
           | Some em \<Rightarrow> (if em_url em = [] then None else Some em)))"

definition trackOfEmbedded :: "EmbeddedMusic \<Rightarrow> Track" where
  "trackOfEmbedded em =
     \<lparr> track_url = em_url em,
       track_title = orDefault (em_title em) ''Background Music'',
       track_artist = orDefault (em_artist em) ''Ehsaas Jewels'',
       startAt = None, endAt = None \<rparr>"

definition musicEffect ::
  "(string \<Rightarrow> js_number) \<Rightarrow> (MusicQuery \<Rightarrow> js_error + QueryResult) \<Rightarrow> Reels \<Rightarrow> Reels \<times> backend_request list" where
  "musicEffect toNumber service p =
     (case embeddedUrl p of
        Some em \<Rightarrow> (p\<lparr> music := Some (trackOfEmbedded em) \<rparr>, [])
      | None \<Rightarrow> fetchMusic toNumber service p)"

definition musicEffect_pages ::
  "(string \<Rightarrow> js_number) \<Rightarrow> (MusicQuery \<Rightarrow> js_error + QueryResult) \<Rightarrow> Reels \<Rightarrow> Reels \<times> backend_request list" where
  "musicEffect_pages toNumber service p =
     (case embeddedUrl p of
        Some em \<Rightarrow> (p\<lparr> music := Some (trackOfEmbedded em) \<rparr>, [])
      | None \<Rightarrow> fetchMusic_pages toNumber service p)"

text \<open>
  Modelled from the spec: the music lookup service, which is not part of the sources.
  Given the query, it returns the rows of the product that match the active flag,
  ordered by priority ascending (ties in the order returned), cut to the limit.
\<close>

record StoredRow =
  row_product_id :: real
  is_active :: bool
  priority :: int
  row :: MusicRow

definition tableService :: "StoredRow list \<Rightarrow> MusicQuery \<Rightarrow> js_error + QueryResult" where
  "tableService table q =
     Inr \<lparr> data = Some (take (q_limit q)
                     (map row (sort_key priority
                        (filter (\<lambda>s. row_product_id s = q_product_id q \<and> is_active s = q_is_active q)
                           table)))),
           error = None \<rparr>"

subsection \<open>The preload caches of the engine page\<close>

text \<open>
  The two \<open>Map\<close>s from URL to preloaded element (in insertion order), the set of
  prefetch links, and, for the record, the video elements that left the cache, each
  with the URL it was cached under and in the state it was left in. An \<open>Image\<close> is
  represented by its \<open>src\<close>.
\<close>

record MediaCache =
  preloadedImages :: "(string \<times> string) list"
  preloadedVideos :: "(string \<times> MediaElement) list"
  prefetchLinks :: "string list"
  releasedVideos :: "(string \<times> MediaElement) list"

definition PRELOAD_AHEAD :: nat where
  "PRELOAD_AHEAD = 2"

definition PRELOAD_BEHIND :: nat where
  "PRELOAD_BEHIND = 1"

definition has :: "('k \<times> 'v) list \<Rightarrow> 'k \<Rightarrow> bool" where
  "has m k = (k \<in> fst ` set m)"

definition preloadImage :: "string \<Rightarrow> MediaCache \<Rightarrow> MediaCache" where
  "preloadImage u c =
     (if u = [] then c
      else if has (preloadedImages c) u then c
      else c\<lparr> preloadedImages := preloadedImages c @ [(u, u)] \<rparr>)"

text \<open>A preloaded video element: \<open>preload = 'auto'\<close>, muted, the URL as \<open>src\<close>, \<open>load()\<close> called.\<close>

definition preloadVideo :: "string \<Rightarrow> MediaCache \<Rightarrow> MediaCache" where
  "preloadVideo u c =
     (if u = [] then c
      else if has (preloadedVideos c) u then c
      else c\<lparr> preloadedVideos := preloadedVideos c @ [(u, el_load (newVideoElement u))] \<rparr>)"

definition addPrefetch :: "string \<Rightarrow> MediaCache \<Rightarrow> MediaCache" where
  "addPrefetch u c =
     (if u = [] \<or> u \<in> set (prefetchLinks c) then c
      else c\<lparr> prefetchLinks := prefetchLinks c @ [u] \<rparr>)"

text \<open>\<open>reel.music?.url || reel.music_audio_url || reel.music_url\<close>\<close>

definition reelAudioUrl :: "Reel \<Rightarrow> string option" where
  "reelAudioUrl r =
     (if truthy (map_option em_url (reel_music r)) then map_option em_url (reel_music r)
      else if truthy (music_audio_url r) then music_audio_url r
      else if truthy (music_url r) then music_url r
      else None)"

definition firstGalleryImages :: "Reel \<Rightarrow> string list" where
  "firstGalleryImages r = (case galleryImages r of None \<Rightarrow> [] | Some g \<Rightarrow> take 2 g)"

text \<open>The preloads for one item: poster, first two gallery images, video, music.\<close>

definition preloadReel :: "Reel \<Rightarrow> MediaCache \<Rightarrow> MediaCache" where
  "preloadReel r c =
     (let c1 = preloadImage (posterImage r) c;
          c2 = fold preloadImage (firstGalleryImages r) c1;
          c3 = (case videoUrl r of None \<Rightarrow> c2 | Some u \<Rightarrow> preloadVideo u c2)
      in case reelAudioUrl r of None \<Rightarrow> c3 | Some u \<Rightarrow> addPrefetch u c3)"

text \<open>
  The indices to preload, in the order the set receives them: the next
  \<open>PRELOAD_AHEAD\<close> that exist, then the previous \<open>PRELOAD_BEHIND\<close> that exist.
\<close>

definition indicesToPreload :: "nat \<Rightarrow> nat \<Rightarrow> nat list" where
  "indicesToPreload k n =
     [k + i. i \<leftarrow> [1 ..< Suc PRELOAD_AHEAD], k + i < n] @
     [k - i. i \<leftarrow> [1 ..< Suc PRELOAD_BEHIND], i \<le> k]"

text \<open>The URLs that an item contributes to the window.\<close>

definition reelUrls :: "Reel \<Rightarrow> string list" where
  "reelUrls r =
     (if posterImage r = [] then [] else [posterImage r]) @
     firstGalleryImages r @
     (if truthy (videoUrl r) then [the (videoUrl r)] else []) @
     (case reelAudioUrl r of None \<Rightarrow> [] | Some u \<Rightarrow> [u])"

definition minKeep :: "nat \<Rightarrow> nat" where
  "minKeep k = k - PRELOAD_BEHIND"

definition maxKeep :: "nat \<Rightarrow> nat \<Rightarrow> nat" where
  "maxKeep k n = min (n - 1) (k + PRELOAD_AHEAD)"

definition urlsInWindow :: "Reel list \<Rightarrow> nat \<Rightarrow> string list" where
  "urlsInWindow rs k =
     concat [reelUrls (rs ! i). i \<leftarrow> [minKeep k ..< Suc (maxKeep k (length rs))], i < length rs]"

text \<open>The release of an evicted video element: \<open>v.src = ''; v.load();\<close>\<close>

definition releaseVideo :: "MediaElement \<Rightarrow> MediaElement" where
  "releaseVideo v = el_load (v\<lparr> src := [] \<rparr>)"

definition pruneCaches :: "string list \<Rightarrow> MediaCache \<Rightarrow> MediaCache" where
  "pruneCaches keep c =
     c\<lparr> preloadedImages := filter (\<lambda>(u, img). u \<in> set keep) (preloadedImages c),
         preloadedVideos := filter (\<lambda>(u, v). u \<in> set keep) (preloadedVideos c),
         releasedVideos := releasedVideos c @
           map (\<lambda>(u, v). (u, releaseVideo v)) (filter (\<lambda>(u, v). u \<notin> set keep) (preloadedVideos c)) \<rparr>"

text \<open>
  The preload effect, run after every change of the index or of the feed: nothing on
  an empty feed; otherwise the preloads for the neighbours, then the pruning of both
  caches to the URLs of the window.
\<close>

definition preloadEffect :: "Reel list \<Rightarrow> nat \<Rightarrow> MediaCache \<Rightarrow> MediaCache" where
  "preloadEffect rs k c =
     (if rs = [] then c
      else
        let c1 = fold preloadReel [rs ! i. i \<leftarrow> indicesToPreload k (length rs), i < length rs] c
        in pruneCaches (urlsInWindow rs k) c1)"

text \<open>The cleanup on unmount: every cached video is released, both caches are cleared.\<close>

definition unmountCaches :: "MediaCache \<Rightarrow> MediaCache" where
  "unmountCaches c =
     c\<lparr> releasedVideos := releasedVideos c @ map (\<lambda>(u, v). (u, releaseVideo v)) (preloadedVideos c),
         preloadedVideos := [], preloadedImages := [] \<rparr>"

subsection \<open>Runs of the engine page\<close>

text \<open>
  The events of the engine page: renders, the effects, the handlers of the controls,
  the events of the \<open>video\<close> element and of the document, the navigation requests
  with the reading of \<open>Date.now()\<close>, the end of a handler's 50 ms delay, and the
  result of the music resolution.
\<close>

datatype page_event =
    Render
  | Remount
  | PlaybackEffect play_env
  | TrackIndex
  | ToggleMute
  | TogglePlay play_env
  | ClickMedia play_env
  | FirstInteract
  | Waiting
  | Stalled
  | PlayEvent play_env
  | PauseEvent
  | LoadedData play_env
  | ErrorEvent
  | Visibility bool play_env
  | PreFade
  | NextReel int
  | PrevReel int
  | CommitNavigation
  | SetMusic "Track option"

fun page_step :: "page_event \<Rightarrow> Reels \<Rightarrow> Reels" where
  "page_step Render p = renderMedia p"
| "page_step Remount p = remountMedia p"
| "page_step (PlaybackEffect env) p = playbackEffect env p"
| "page_step TrackIndex p = trackIndexEffect p"
| "page_step ToggleMute p = toggleMute p"
| "page_step (TogglePlay env) p = togglePlay env p"
| "page_step (ClickMedia env) p = onClick_media env p"
| "page_step FirstInteract p = onFirstInteract p"
| "page_step Waiting p = onWaiting p"
| "page_step Stalled p = onStalled p"
| "page_step (PlayEvent env) p = onPlay env p"
| "page_step PauseEvent p = onPause p"
| "page_step (LoadedData env) p = onLoadedData env p"
| "page_step ErrorEvent p = onError p"
| "page_step (Visibility hidden env) p = onVisibilityChange hidden env p"
| "page_step PreFade p = preFadeCurrentAudio p"
| "page_step (NextReel now) p = handleNextReel now p"
| "page_step (PrevReel now) p = handlePrevReel now p"
| "page_step CommitNavigation p = commitNavigation p"
| "page_step (SetMusic t) p = p\<lparr> music := t \<rparr>"

definition page_run :: "page_event list \<Rightarrow> Reels \<Rightarrow> Reels" where
  "page_run evs p = fold page_step evs p"

text \<open>The video element, when one is mounted, is muted.\<close>

definition videoMuted :: "Reels \<Rightarrow> bool" where
  "videoMuted p = (case videoRef p of None \<Rightarrow> True | Some v \<Rightarrow> muted v)"

text \<open>
  The first \<open>keydown\<close> on the document: the listener sets \<open>hasUserInteracted\<close>, React
  renders, and the playback effect runs again because the flag is one of its
  dependencies.
\<close>

definition firstKeydown :: "play_env \<Rightarrow> Reels \<Rightarrow> Reels" where
  "firstKeydown env p = playbackEffect env (renderMedia (onFirstInteract p))"

text \<open>Concrete inputs: an environment in which everything succeeds, and a feed.\<close>

definition allGood :: play_env where
  "allGood = \<lparr> canPlay = True, videoPlays = True, videoRetryPlays = True, audioPlays = True,
               audioRetryPlays = True, enginePlays = True, superseded = (\<lambda>k. False) \<rparr>"

definition reelA :: Reel where
  "reelA = \<lparr> reel_id = ''fr52'', videoUrl = Some ''a.mp4'', posterImage = ''a.jpg'',
             galleryImages = Some [''a.jpg'', ''a2.jpg''], productId = Some (Num 52),
             primaryProductId = ''52'', reel_music = None, music_audio_url = None,
             music_url = None \<rparr>"

definition reelB :: Reel where
  "reelB = \<lparr> reel_id = ''fr7'', videoUrl = None, posterImage = ''p1.jpg'',
             galleryImages = Some [''p1.jpg'', ''p2.jpg''], productId = Some (Num 7),
             primaryProductId = ''7'', reel_music = None, music_audio_url = None,
             music_url = None \<rparr>"

definition trackX :: Track where
  "trackX = \<lparr> track_url = ''x.mp3'', track_title = ''Background Music'',
              track_artist = ''Ehsaas Jewels'', startAt = Some 0, endAt = None \<rparr>"

text \<open>The engine page showing \<open>reelA\<close> with its music resolved, before any interaction.\<close>

definition pageA :: Reels where
  "pageA = renderMedia ((newReels [reelA, reelB])\<lparr> music := Some trackX \<rparr>)"

text \<open>The page \<open>src/pages/Reels.tsx\<close> in the same situation, muted by the user.\<close>

definition pageA_pages :: Reels where
  "pageA_pages =
     (renderMedia ((newReels_pages [reelA, reelB])\<lparr> music := Some trackX \<rparr>))\<lparr> isMuted_ui := True \<rparr>"

subsection \<open>Navigation requests\<close>













subsection \<open>Concrete inputs for the resolver\<close>

text \<open>
  Two rows, a table in which product 52 has an inactive row of priority 0 and active
  rows of priority 2 and 1, an item with embedded music, an item whose only product id
  is the string \<open>abc\<close>, and a \<open>Number\<close> that knows the strings used here.
\<close>

definition rowX :: MusicRow where
  "rowX = \<lparr> audio_url = Some ''x.mp3'', row_title = None, row_artist = None,
            start_at_seconds = None, end_at_seconds = None \<rparr>"

definition rowY :: MusicRow where
  "rowY = \<lparr> audio_url = Some ''y.mp3'', row_title = Some ''Y'', row_artist = None,
            start_at_seconds = Some 3, end_at_seconds = Some 20 \<rparr>"

definition musicTable :: "StoredRow list" where
  "musicTable =
     [\<lparr> row_product_id = 52, is_active = True, priority = 2, row = rowY \<rparr>,
      \<lparr> row_product_id = 52, is_active = False, priority = 0, row = rowY \<rparr>,
      \<lparr> row_product_id = 52, is_active = True, priority = 1, row = rowX \<rparr>,
      \<lparr> row_product_id = 9, is_active = True, priority = 0, row = rowY \<rparr>]"

definition reelEmbedded :: Reel where
  "reelEmbedded = reelA\<lparr> reel_music := Some \<lparr> em_url = ''e.mp3'', em_title = Some ''E'', em_artist = None \<rparr> \<rparr>"

definition reelNoId :: Reel where
  "reelNoId = reelB\<lparr> productId := None, primaryProductId := ''abc'' \<rparr>"

definition numberOf :: "string \<Rightarrow> js_number" where
  "numberOf s = (if s = ''52'' then Num 52 else if s = ''7'' then Num 7 else NaN)"

subsection \<open>Concrete inputs for the caches\<close>

text \<open>
  A feed of five video items and the caches after the preload effect has run at
  index 0 on empty caches.
\<close>

definition videoReel :: "string \<Rightarrow> Reel" where
  "videoReel s =
     \<lparr> reel_id = ''fr'' @ s, videoUrl = Some (''v'' @ s @ ''.mp4''), posterImage = ''p'' @ s @ ''.jpg'',
       galleryImages = Some [''p'' @ s @ ''.jpg''], productId = None, primaryProductId = s,
       reel_music = None, music_audio_url = None, music_url = None \<rparr>"

definition feed5 :: "Reel list" where
  "feed5 = map videoReel [''0'', ''1'', ''2'', ''3'', ''4'']"

definition cacheAt0 :: MediaCache where
  "cacheAt0 = preloadEffect feed5 0
     \<lparr> preloadedImages = [], preloadedVideos = [], prefetchLinks = [], releasedVideos = [] \<rparr>"

section \<open>Properties of the audio playback engine\<close>

subsection \<open>What every operation leaves alone\<close>

lemma passes_refl [simp]: "passes s m m"
  by (simp add: passes_def)

lemma passes_trans: "passes s m m1 \<Longrightarrow> passes s m1 m2 \<Longrightarrow> passes s m m2"
  by (auto simp: passes_def)

lemma passes_setState [simp]: "passes s m (setState st m)"
  by (simp add: passes_def setState_def starts_of_def)

lemma passes_clearFadeTimeout [simp]: "passes s m (clearFadeTimeout m)"
  by (simp add: passes_def clearFadeTimeout_def starts_of_def split: option.splits)

lemma passes_closeContext [simp]: "passes s m (closeContext m)"
  by (simp add: passes_def closeContext_def starts_of_def split: option.splits)

lemma passes_setVolume [simp]: "passes s m (setVolume v m)"
  by (simp add: passes_def setVolume_def starts_of_def Let_def split: option.splits)

lemma passes_setMuted [simp]: "passes s m (setMuted b m)"
  by (simp add: passes_def setMuted_def setVolume_def starts_of_def Let_def split: option.splits)

lemma passes_cleanup [simp]: "passes s m (cleanup m)"
  by (simp add: passes_def cleanup_def setState_def closeContext_def clearFadeTimeout_def starts_of_def split: option.splits)

lemma passes_unload [simp]: "passes s m (unload m)"
  by (simp add: passes_def unload_def cleanup_def setState_def closeContext_def clearFadeTimeout_def starts_of_def Let_def split: option.splits)

lemma passes_fadeTo [simp]: "passes s m (snd (fadeTo a b d now m))"
  by (simp add: fadeTo_def Let_def)

lemma passes_fade_resume [simp]: "passes s m (snd (fade_resume sig job fpc m))"
  by (cases "(sig, job, fpc, m)" rule: fade_resume.cases) (simp_all add: Let_def, simp_all add: passes_def starts_of_def)

lemma passes_stop [simp]: "passes s m (snd (stop f now m))"
proof -
  have a: "passes s m (snd (fadeTo (volume (setState stopping m)) 0 500 now (setState stopping m)))"
    by (rule passes_trans[OF passes_setState passes_fadeTo])
  have b: "passes s m (unload (setState stopping m))"
    by (rule passes_trans[OF passes_setState passes_unload])
  show ?thesis using a b
    by (cases "fadeTo (volume (setState stopping m)) 0 500 now (setState stopping m)")
       (auto simp: stop_def Let_def split: option.splits)
qed

lemma passes_stop_resume [simp]: "passes s m (snd (stop_resume sig pc m))"
proof (cases pc)
  case (StopFading job fpc)
  then show ?thesis using passes_fade_resume[of s m sig job fpc]
    by (cases "fade_resume sig job fpc m") (auto split: option.splits)
qed simp_all

lemma passes_play [simp]: "passes s m (snd (play url f now m))"
proof -
  let ?m1 = "m\<lparr> transitionId := Suc (transitionId m) \<rparr>"
  have a: "passes s m ?m1" by (simp add: passes_def starts_of_def)
  have b: "passes s ?m1 (snd (stop True now ?m1))" by simp
  have "passes s m (snd (stop True now ?m1))" by (rule passes_trans[OF a b])
  then show ?thesis
    by (cases "stop True now ?m1") (auto simp: play_def Let_def split: status.splits)
qed

lemma passes_play_begin [simp]: "passes s m (snd (play_begin sig c m))"
proof -
  let ?m0 = "m\<lparr> currentUrl := Some (play_url c) \<rparr>"
  let ?m1 = "setState loading ?m0"
  have a: "passes s m ?m1" by (simp add: passes_def starts_of_def setState_def)
  have b: "passes s m (cleanup ?m1)" by (rule passes_trans[OF a passes_cleanup])
  have c: "\<And>x. passes s m (?m1\<lparr> effects := effects ?m1 @ [FetchIssued x] \<rparr>)"
    by (simp add: passes_def starts_of_def setState_def)
  have d: "\<And>x. passes s m (?m1\<lparr> audioContext := Some (fresh ?m1), fresh := Suc (fresh ?m1),
                         effects := effects ?m1 @ [ContextCreated (fresh ?m1), FetchIssued x] \<rparr>)"
    by (simp add: passes_def starts_of_def setState_def)
  show ?thesis using b c d
    by (auto simp: play_begin_def Let_def split: option.splits signal.splits)
qed

lemma passes_play_decoded [simp]: "passes s m (snd (play_decoded sig now c m))"
proof -
  let ?m1 = "m\<lparr> audioBuffer := Some (play_url c) \<rparr>"
  let ?m2 = "setState ready ?m1"
  let ?m3 = "?m2\<lparr> sourceNode := audioBuffer ?m2, gainNode := Some 1,
                  effects := effects ?m2 @ [SourceStarted (myTransitionId c) (play_url c)] \<rparr>"
  let ?m4 = "setState playing ?m3"
  have a: "passes s m ?m1" by (simp add: passes_def starts_of_def)
  have b: "passes s m (cleanup ?m1)" by (rule passes_trans[OF a passes_cleanup])
  have c: "passes s m ?m2" by (rule passes_trans[OF a passes_setState])
  have d: "passes s m (cleanup ?m2)" by (rule passes_trans[OF c passes_cleanup])
  have e: "myTransitionId c = transitionId m \<Longrightarrow> passes s m ?m4"
    by (simp add: passes_def starts_of_def setState_def)
  have f: "myTransitionId c = transitionId m \<Longrightarrow> passes s m (setVolume (volume ?m4) ?m4)"
    by (rule passes_trans[OF e passes_setVolume])
  have g: "myTransitionId c = transitionId m \<Longrightarrow> passes s m (snd (fadeTo 0 (volume ?m4) 500 now ?m4))"
    by (rule passes_trans[OF e passes_fadeTo])
  show ?thesis
  proof (cases "myTransitionId c = transitionId m")
    case False
    then show ?thesis using b by (simp add: play_decoded_def Let_def)
  next
    case True
    show ?thesis using d f[OF True] g[OF True] True
      by (cases "fadeTo 0 (volume ?m4) 500 now ?m4")
         (auto simp: play_decoded_def Let_def split: option.splits signal.splits)
  qed
qed

lemma passes_play_resume [simp]: "passes s m (snd (play_resume sig now c pc m))"
proof (cases "(sig, now, c, pc, m)" rule: play_resume.cases)
  case (1 sig now c spc m)
  then show ?thesis using passes_stop_resume[of s m sig spc]
    by (cases "stop_resume sig spc m") (auto split: status.splits)
next
  case (9 sig now c job fpc m)
  then show ?thesis using passes_fade_resume[of s m sig job fpc]
    by (cases "fade_resume sig job fpc m") (auto split: option.splits)
qed (auto split: option.splits)

lemma passes_dispose [simp]: "passes s m (snd (dispose now m))"
  using passes_stop[of s m True now]
  by (cases "stop True now m") (auto simp: dispose_def split: status.splits)

lemma passes_dispose_resume [simp]: "passes s m (snd (dispose_resume sig pc m))"
proof (cases pc)
  case None
  then show ?thesis by simp
next
  case (Some spc)
  then show ?thesis using passes_stop_resume[of s m sig spc]
    by (cases "stop_resume sig spc m") (auto split: status.splits)
qed

lemma passes_task_resume [simp]: "passes s m (snd (task_resume sig now t m))"
proof (cases t)
  case (PlayTask c pc)
  then show ?thesis using passes_play_resume[of s m sig now c pc]
    by (cases "play_resume sig now c pc m") (auto split: status.splits)
next
  case (StopTask pc)
  then show ?thesis using passes_stop_resume[of s m sig pc]
    by (cases "stop_resume sig pc m") (auto split: status.splits)
next
  case (DisposeTask pc)
  then show ?thesis using passes_dispose_resume[of s m sig pc]
    by (cases "dispose_resume sig pc m") (auto split: status.splits)
qed

lemma passes_step: "passes s (manager sys) (manager (step ev sys))"
proof (cases "(ev, sys)" rule: step.cases)
  case (1 now url fadeIn s')
  then have "manager (step ev sys) = snd (play url fadeIn now (manager sys))"
    by (simp split: prod.splits)
  then show ?thesis by simp
next
  case (2 now fadeOut s')
  then have "manager (step ev sys) = snd (stop fadeOut now (manager sys))"
    by (simp split: prod.splits status.splits)
  then show ?thesis by simp
next
  case (3 now muted s')
  then show ?thesis by simp
next
  case (4 now s')
  then have "manager (step ev sys) = snd (dispose now (manager sys))"
    by (simp split: prod.splits)
  then show ?thesis by simp
next
  case (5 now i sig s')
  show ?thesis
  proof (cases "i < length (tasks sys)")
    case False
    then show ?thesis using 5 by simp
  next
    case True
    show ?thesis
    proof (cases "tasks sys ! i")
      case (Suspended t)
      then have "manager (step ev sys) = snd (task_resume sig now t (manager sys))"
        using 5 True by (simp split: prod.splits)
      then show ?thesis by simp
    qed (use 5 True in auto)
  qed
qed

lemma passes_run: "passes s (manager sys) (manager (run evs sys))"
proof (induction evs arbitrary: sys)
  case Nil
  then show ?case by (simp add: run_def)
next
  case (Cons ev evs)
  have "passes s (manager sys) (manager (step ev sys))" by (rule passes_step)
  moreover have "passes s (manager (step ev sys)) (manager (run evs (step ev sys)))" by (rule Cons.IH)
  ultimately show ?case by (simp add: run_def passes_trans)
qed

subsection \<open>What \<open>cleanup\<close> establishes\<close>

lemma released_cleanup: "released (cleanup m)"
  by (simp add: released_def cleanup_def setState_def closeContext_def clearFadeTimeout_def split: option.splits)

lemma closed_context_cleanup: "closed_context m (cleanup m)"
  by (simp add: cleanup_def setState_def closeContext_def clearFadeTimeout_def split: option.splits)

lemma all_starts_cleanup: "all_starts (cleanup m) = all_starts m"
  by (simp add: all_starts_def cleanup_def setState_def closeContext_def clearFadeTimeout_def split: option.splits)

subsection \<open>Failures inside \<open>play\<close>\<close>

lemma keeps_context_simps [simp]:
  "audioContext (setState st m) = audioContext m"
  "effects (setState st m) = effects m @ [StateChanged st]"
  by (simp_all add: setState_def)

lemma fails_released_cleanup:
  assumes "all_starts m' = all_starts m" and "audioContext m' = audioContext m"
  shows "fails_released e m (Rejected e, cleanup m')"
  using assms released_cleanup[of m'] closed_context_cleanup[of m'] all_starts_cleanup[of m']
  by (simp add: fails_released_def split: option.splits)

lemma rejected_play_begin:
  "fst (play_begin sig c m) = Rejected e \<Longrightarrow> fails_released e m (play_begin sig c m)"
  by (auto simp: play_begin_def Let_def all_starts_def setState_def
           split: if_splits option.splits signal.splits intro!: fails_released_cleanup)

lemma rejected_play_decoded:
  "fst (play_decoded sig now c m) = Rejected e \<Longrightarrow> fails_released e m (play_decoded sig now c m)"
  by (auto simp: play_decoded_def Let_def all_starts_def setState_def fadeTo_def
           split: if_splits option.splits signal.splits intro!: fails_released_cleanup)

lemma rejected_play_resume:
  assumes rej: "fst (play_resume sig now c pc m) = Rejected e"
  shows "fails_released e m (play_resume sig now c pc m)"
proof (cases "(sig, now, c, pc, m)" rule: play_resume.cases)
  case (1 sig now c spc m)
  then show ?thesis using rej by (cases "stop_resume sig spc m") (auto split: status.splits)
next
  case (9 sig now c job fpc m)
  then show ?thesis using rej by (cases "fade_resume sig job fpc m") (auto split: option.splits)
qed (use rej in \<open>auto simp: rejected_play_begin rejected_play_decoded split: option.splits intro!: fails_released_cleanup\<close>)

subsection \<open>The ramp that never runs\<close>

lemma fadeTo_without_sound:
  "sound m = None \<Longrightarrow> fadeTo a b d now m = (None, clearFadeTimeout m)"
  by (simp add: fadeTo_def Let_def clearFadeTimeout_def split: option.splits)

lemma cleanup_clearFadeTimeout: "cleanup (clearFadeTimeout m) = cleanup m"
  by (cases "fadeTimeout m") (simp_all add: cleanup_def clearFadeTimeout_def)

lemma unload_active:
  "state m \<noteq> idle \<Longrightarrow>
   unload m = cleanup (m\<lparr> state := unloading,
     effects := effects m @ StateChanged unloading # (case sourceNode m of None \<Rightarrow> [] | Some u \<Rightarrow> [SourceStopped]) \<rparr>)"
  by (cases "gainNode m"; cases "sourceNode m"; cases "fadeTimeout m"; cases "audioContext m")
     (simp_all add: unload_def setState_def Let_def cleanup_def clearFadeTimeout_def closeContext_def)

lemma unload_clearFadeTimeout:
  assumes "state m \<noteq> idle"
  shows "unload (clearFadeTimeout m) = unload m"
proof (cases "fadeTimeout m")
  case None
  then show ?thesis by (simp add: clearFadeTimeout_def)
next
  case (Some t)
  let ?g = "\<lambda>m. m\<lparr> state := unloading,
     effects := effects m @ StateChanged unloading # (case sourceNode m of None \<Rightarrow> [] | Some u \<Rightarrow> [SourceStopped]) \<rparr>"
  have c: "clearFadeTimeout m = m\<lparr> timers := removeAll t (timers m), fadeTimeout := None \<rparr>"
    using Some by (simp add: clearFadeTimeout_def)
  have "state (clearFadeTimeout m) \<noteq> idle" using assms c by simp
  then have "unload (clearFadeTimeout m) = cleanup (?g (clearFadeTimeout m))"
    by (rule unload_active)
  also have "?g (clearFadeTimeout m) = clearFadeTimeout (?g m)"
    using Some by (simp add: clearFadeTimeout_def)
  also have "cleanup (clearFadeTimeout (?g m)) = cleanup (?g m)"
    by (rule cleanup_clearFadeTimeout)
  also have "cleanup (?g m) = unload m"
    using unload_active[OF assms] by simp
  finally show ?thesis .
qed

lemma stop_fade_flag_irrelevant:
  assumes "sound m = None"
  shows "stop False now m =
           (case stop True now m of
              (Suspended StopFaded, m1) \<Rightarrow> stop_resume sig StopFaded m1
            | r \<Rightarrow> r)"
proof -
  have "sound (setState stopping m) = None" using assms by (simp add: setState_def)
  then have f: "fadeTo (volume (setState stopping m)) 0 500 now (setState stopping m)
             = (None, clearFadeTimeout (setState stopping m))"
    by (rule fadeTo_without_sound)
  have "state (setState stopping m) \<noteq> idle" by (simp add: setState_def)
  then have u: "unload (clearFadeTimeout (setState stopping m)) = unload (setState stopping m)"
    by (rule unload_clearFadeTimeout)
  show ?thesis
    by (simp add: stop_def Let_def f u)
qed

lemma fadeIn_sets_nothing:
  assumes "sound m = None" "play_fadeIn c" "myTransitionId c = transitionId m" "audioContext m = Some x"
  shows "fst (play_decoded Settled now c m) = Suspended PlaySettling \<and>
         gainNode (snd (play_decoded Settled now c m)) = Some 1 \<and>
         volume (snd (play_decoded Settled now c m)) = volume m \<and>
         state (snd (play_decoded Settled now c m)) = playing"
  using assms
  by (cases "fadeTimeout m")
     (simp_all add: play_decoded_def Let_def fadeTo_def setState_def clearFadeTimeout_def)

lemma sound_passes: "passes s m m' \<Longrightarrow> sound m' = sound m"
  by (simp add: passes_def)

lemma stop_not_fading:
  "sound m = None \<Longrightarrow> fst (stop f now m) = Suspended pc \<Longrightarrow> \<not> stop_fading pc"
  by (auto simp: stop_def Let_def fadeTo_without_sound setState_def split: if_splits)

lemma stop_resume_not_fading:
  "\<not> stop_fading pc \<Longrightarrow> fst (stop_resume sig pc m) = Suspended pc' \<Longrightarrow> \<not> stop_fading pc'"
  by (cases pc) (auto split: if_splits)

lemma play_not_fading:
  "sound m = None \<Longrightarrow> \<not> play_fading (snd (fst (play url f now m)))"
proof -
  assume s: "sound m = None"
  let ?m1 = "m\<lparr> transitionId := Suc (transitionId m) \<rparr>"
  have "sound ?m1 = None" using s by simp
  then have "\<And>pc. fst (stop True now ?m1) = Suspended pc \<Longrightarrow> \<not> stop_fading pc"
    by (rule stop_not_fading)
  then show ?thesis
    by (cases "stop True now ?m1") (auto simp: play_def Let_def split: status.splits)
qed

lemma play_decoded_not_fading:
  "sound m = None \<Longrightarrow> fst (play_decoded sig now c m) = Suspended pc \<Longrightarrow> pc = PlaySettling"
  by (auto simp: play_decoded_def Let_def fadeTo_without_sound setState_def
           split: if_splits option.splits signal.splits)

lemma play_resume_not_fading:
  assumes "sound m = None" and "\<not> play_fading pc" and "fst (play_resume sig now c pc m) = Suspended pc'"
  shows "\<not> play_fading pc'"
proof (cases pc)
  case (PlayStopping opc)
  show ?thesis
  proof (cases opc)
    case None
    then show ?thesis using assms PlayStopping
      by (auto simp: play_begin_def Let_def split: if_splits option.splits signal.splits)
  next
    case (Some spc)
    then show ?thesis using assms PlayStopping stop_resume_not_fading[of spc sig m]
      by (cases "stop_resume sig spc m") (auto split: status.splits)
  qed
next
  case PlayFetching
  then show ?thesis using assms by (cases sig) auto
next
  case PlayReadingBody
  then show ?thesis using assms by (cases sig) (auto split: option.splits)
next
  case PlayDecoding
  then show ?thesis using assms play_decoded_not_fading[of m sig now c pc']
    by (cases sig) auto
next
  case (PlayFadingIn job fpc)
  then show ?thesis using assms by simp
next
  case PlaySettling
  then show ?thesis using assms by simp
qed

lemma dispose_not_fading:
  "sound m = None \<Longrightarrow> fst (dispose now m) = Some pc \<Longrightarrow> \<not> stop_fading pc"
  using stop_not_fading[of m True now pc]
  by (cases "stop True now m") (auto simp: dispose_def split: status.splits)

lemma task_resume_not_fading:
  assumes "sound m = None" and "\<not> fading (Suspended t)"
  shows "\<not> fading (fst (task_resume sig now t m))"
proof (cases t)
  case (PlayTask c pc)
  then show ?thesis using assms play_resume_not_fading[of m pc sig now c]
    by (cases "play_resume sig now c pc m") (auto split: status.splits)
next
  case (StopTask pc)
  then show ?thesis using assms stop_resume_not_fading[of pc sig m]
    by (cases "stop_resume sig pc m") (auto split: status.splits)
next
  case (DisposeTask opc)
  show ?thesis
  proof (cases opc)
    case None
    then show ?thesis using DisposeTask by simp
  next
    case (Some pc)
    then show ?thesis using DisposeTask assms stop_resume_not_fading[of pc sig m]
      by (cases "stop_resume sig pc m") (auto split: status.splits)
  qed
qed

lemma quiet_step: assumes q: "quiet sys" shows "quiet (step ev sys)"
proof -
  have snd: "sound (manager (step ev sys)) = None"
    using q sound_passes[OF passes_step[of 0 sys ev]] by (simp add: quiet_def)
  have nf: "\<forall>t\<in>set (tasks sys). \<not> fading t" and s0: "sound (manager sys) = None"
    using q by (auto simp: quiet_def list_ex_iff)
  have "\<forall>t\<in>set (tasks (step ev sys)). \<not> fading t"
  proof (cases "(ev, sys)" rule: step.cases)
    case (1 now url fadeIn s')
    then show ?thesis using nf play_not_fading[OF s0, of url fadeIn now]
      by (cases "play url fadeIn now (manager sys)") auto
  next
    case (2 now fadeOut s')
    then show ?thesis using nf stop_not_fading[OF s0, of fadeOut now]
      by (cases "stop fadeOut now (manager sys)") (auto split: status.splits)
  next
    case (3 now muted s')
    then show ?thesis using nf by auto
  next
    case (4 now s')
    then show ?thesis using nf dispose_not_fading[OF s0, of now]
      by (cases "dispose now (manager sys)"; cases "fst (dispose now (manager sys))") auto
  next
    case (5 now i sig s')
    show ?thesis
    proof (cases "i < length (tasks sys)")
      case False
      then show ?thesis using 5 nf by simp
    next
      case True
      show ?thesis
      proof (cases "tasks sys ! i")
        case (Suspended t)
        then have "\<not> fading (Suspended t)" using nf True by (metis nth_mem)
        then have "\<not> fading (fst (task_resume sig now t (manager sys)))"
          using s0 task_resume_not_fading by blast
        then show ?thesis using 5 True Suspended nf
          by (cases "task_resume sig now t (manager sys)") (auto dest!: set_update_subset_insert[THEN subsetD])
      qed (use 5 True nf in auto)
    qed
  qed
  then show ?thesis using snd by (simp add: quiet_def list_ex_iff)
qed

lemma quiet_run: "quiet sys \<Longrightarrow> quiet (run evs sys)"
  by (induction evs arbitrary: sys) (simp_all add: run_def quiet_step)

lemma quiet_newSystem: "quiet newSystem"
  by (simp add: quiet_def newSystem_def newAudioManager_def)

subsection \<open>What \<open>stop\<close> leaves alone\<close>

lemma stop_keeps_counter: "transitionId (snd (stop fadeOut now m)) = transitionId m"
  by (simp add: stop_def Let_def fadeTo_def setState_def clearFadeTimeout_def unload_def cleanup_def
        closeContext_def split: option.splits)

lemma fade_resume_keeps_counter: "transitionId (snd (fade_resume sig job fpc m)) = transitionId m"
  by (cases "(sig, job, fpc, m)" rule: fade_resume.cases)
     (simp_all add: Let_def setVolume_def split: option.splits)

lemma stop_resume_keeps_counter: "transitionId (snd (stop_resume sig pc m)) = transitionId m"
proof (cases pc)
  case (StopFading job fpc)
  then show ?thesis
    using fade_resume_keeps_counter[of sig job fpc m]
    by (cases "fade_resume sig job fpc m"; cases "fst (fade_resume sig job fpc m)") auto
next
  case StopFaded
  then show ?thesis
    by (simp add: unload_def Let_def setState_def cleanup_def closeContext_def clearFadeTimeout_def
          split: option.splits)
qed simp_all

lemma stop_without_graph:
  "stop fadeOut now (m\<lparr> sourceNode := None, audioBuffer := None \<rparr>)
     = (Resolved, m\<lparr> sourceNode := None, audioBuffer := None \<rparr>)"
  by (simp add: stop_def)


section \<open>Properties of the feed pages\<close>

subsection \<open>The cool-down gate\<close>
















subsection \<open>The video element of the engine page\<close>

lemma videoMuted_renderMedia: "videoMuted p \<Longrightarrow> videoMuted (renderMedia p)"
  by (cases "videoRef p") (simp_all add: videoMuted_def renderMedia_def newVideoElement_def)

lemma videoMuted_remountMedia: "videoMuted (remountMedia p)"
  by (simp add: videoMuted_def remountMedia_def renderMedia_def newVideoElement_def)

lemma videoRef_fadeOutAndStopPrevious [simp]: "videoRef (fadeOutAndStopPrevious p) = videoRef p"
  by (cases "audioManagerRef p") (simp_all add: fadeOutAndStopPrevious_def)

lemma videoRef_startAudioPlayback [simp]: "videoRef (startAudioPlayback env p) = videoRef p"
  by (cases "musicUrl p"; cases "audioManagerRef p") (simp_all add: startAudioPlayback_def)

lemma videoMuted_startVideoPlayback: "videoMuted p \<Longrightarrow> videoMuted (startVideoPlayback env p)"
  by (cases "videoRef p") (simp_all add: videoMuted_def startVideoPlayback_def el_play_def Let_def)

lemma startVideoPlayback_mutes:
  "videoRef p = Some v \<Longrightarrow> hasVideoUrl p \<Longrightarrow> 3 \<le> readyState v \<or> canPlay env \<Longrightarrow>
   \<exists>v'. videoRef (startVideoPlayback env p) = Some v' \<and> muted v' \<and> el_volume v' = 0"
  by (auto simp: startVideoPlayback_def el_play_def Let_def)

lemma videoMuted_run_transition: "videoMuted p \<Longrightarrow> videoMuted (run_transition env p)"
proof -
  assume m: "videoMuted p"
  let ?p1 = "fadeOutAndStopPrevious p"
  let ?p2 = "if musicUrl ?p1 \<noteq> None then startAudioPlayback env ?p1 else ?p1"
  have 1: "videoMuted ?p1" using m by (simp add: videoMuted_def)
  have 2: "videoMuted ?p2" using 1 by (simp add: videoMuted_def)
  have 3: "videoMuted (startVideoPlayback env ?p2)" using 2 by (rule videoMuted_startVideoPlayback)
  show ?thesis using 1 2 3 by (simp add: run_transition_def Let_def)
qed

lemma videoMuted_playbackEffect: "videoMuted p \<Longrightarrow> videoMuted (playbackEffect env p)"
proof -
  assume m: "videoMuted p"
  let ?p1 = "p\<lparr> preFadeActive := False, transitionIdRef := Suc (transitionIdRef p),
                   videoError := False, isPlaying := True \<rparr>"
  have 1: "videoMuted ?p1" using m by (simp add: videoMuted_def)
  then have 2: "videoMuted (run_transition env ?p1)" by (rule videoMuted_run_transition)
  show ?thesis using 1 2 by (cases "videoRef p") (simp_all add: playbackEffect_def Let_def)
qed

lemma videoMuted_toggleMute: "videoMuted (toggleMute p)"
  by (cases "videoRef p"; cases "audioManagerRef p") (simp_all add: videoMuted_def toggleMute_def Let_def)

lemma videoMuted_togglePlay: "videoMuted p \<Longrightarrow> videoMuted (togglePlay env p)"
  by (cases "videoRef p"; cases "audioRef p")
     (simp_all add: videoMuted_def togglePlay_def el_play_def el_pause_def Let_def)

lemma videoMuted_strongStopAllMedia: "videoMuted (strongStopAllMedia p)"
  by (cases "videoRef p") (simp_all add: videoMuted_def strongStopAllMedia_def)

lemma videoMuted_onClick_media: "videoMuted p \<Longrightarrow> videoMuted (onClick_media env p)"
  by (cases "videoRef p"; cases "audioRef p")
     (simp_all add: videoMuted_def onClick_media_def el_play_def Let_def)

lemma videoMuted_handleNextReel: "videoMuted p \<Longrightarrow> videoMuted (handleNextReel now p)"
  by (cases "videoRef p") (simp_all add: videoMuted_def handleNextReel_def strongStopAllMedia_def)

lemma videoMuted_handlePrevReel: "videoMuted p \<Longrightarrow> videoMuted (handlePrevReel now p)"
  by (cases "videoRef p") (simp_all add: videoMuted_def handlePrevReel_def strongStopAllMedia_def)

lemma videoMuted_commitNavigation: "videoMuted p \<Longrightarrow> videoMuted (commitNavigation p)"
  by (cases "pendingCommits p") (simp_all add: videoMuted_def)

lemma videoMuted_small:
  "videoMuted p \<Longrightarrow> videoMuted (onFirstInteract p)"
  "videoMuted p \<Longrightarrow> videoMuted (trackIndexEffect p)"
  "videoMuted p \<Longrightarrow> videoMuted (onPause p)"
  "videoMuted p \<Longrightarrow> videoMuted (p\<lparr> music := t \<rparr>)"
  by (simp_all add: videoMuted_def onFirstInteract_def trackIndexEffect_def onPause_def)

lemma videoMuted_preFadeCurrentAudio: "videoMuted p \<Longrightarrow> videoMuted (preFadeCurrentAudio p)"
  by (cases "audioRef p") (simp_all add: videoMuted_def preFadeCurrentAudio_def)

lemma videoMuted_onPlay: "videoMuted p \<Longrightarrow> videoMuted (onPlay env p)"
  by (cases "audioRef p") (simp_all add: videoMuted_def onPlay_def Let_def)

lemma videoMuted_onStalled: "videoMuted p \<Longrightarrow> videoMuted (onStalled p)"
  by (cases "videoRef p") (simp_all add: videoMuted_def onStalled_def)

lemma videoMuted_onWaiting: "videoMuted (onWaiting p)"
  by (cases "videoRef p") (simp_all add: videoMuted_def onWaiting_def)

lemma videoMuted_onLoadedData: "videoMuted p \<Longrightarrow> videoMuted (onLoadedData env p)"
  by (cases "videoRef p") (simp_all add: videoMuted_def onLoadedData_def el_play_def)

lemma videoMuted_onError: "videoMuted p \<Longrightarrow> videoMuted (onError p)"
  by (cases "videoRef p") (simp_all add: videoMuted_def onError_def el_pause_def el_load_def Let_def)

lemma videoMuted_onVisibilityChange: "videoMuted p \<Longrightarrow> videoMuted (onVisibilityChange hidden env p)"
  by (cases "videoRef p") (simp_all add: videoMuted_def onVisibilityChange_def el_pause_def el_play_def)

lemmas videoMuted_handlers = videoMuted_handleNextReel videoMuted_handlePrevReel
  videoMuted_commitNavigation videoMuted_small videoMuted_preFadeCurrentAudio videoMuted_onPlay
  videoMuted_onStalled videoMuted_onWaiting videoMuted_onLoadedData videoMuted_onError
  videoMuted_onVisibilityChange videoMuted_strongStopAllMedia

lemma videoMuted_page_step: "videoMuted p \<Longrightarrow> videoMuted (page_step ev p)"
  by (cases ev)
     (simp_all add: videoMuted_renderMedia videoMuted_remountMedia videoMuted_playbackEffect
        videoMuted_toggleMute videoMuted_togglePlay videoMuted_onClick_media videoMuted_handlers
        del: commitNavigation.simps)

lemma videoMuted_page_run: "videoMuted p \<Longrightarrow> videoMuted (page_run evs p)"
  by (induction evs arbitrary: p) (simp_all add: page_run_def videoMuted_page_step)

subsection \<open>The engine reference of the engine page\<close>

lemma no_engine_fadeOutAndStopPrevious:
  "audioManagerRef p = None \<Longrightarrow> fadeOutAndStopPrevious p = p"
  by (simp add: fadeOutAndStopPrevious_def)

lemma no_engine_startAudioPlayback:
  "audioManagerRef p = None \<Longrightarrow> startAudioPlayback env p = p"
  by (cases "musicUrl p") (simp_all add: startAudioPlayback_def)

lemma audioManagerRef_startVideoPlayback [simp]:
  "audioManagerRef (startVideoPlayback env p) = audioManagerRef p"
  by (cases "videoRef p") (simp_all add: startVideoPlayback_def Let_def)

lemma attempts_startVideoPlayback [simp]:
  "attempts (startVideoPlayback env p) = attempts p"
  by (cases "videoRef p") (simp_all add: startVideoPlayback_def Let_def)

lemma no_engine_run_transition:
  "audioManagerRef p = None \<Longrightarrow>
   audioManagerRef (run_transition env p) = None \<and> attempts (run_transition env p) = attempts p"
  by (simp add: run_transition_def no_engine_fadeOutAndStopPrevious no_engine_startAudioPlayback)

lemma no_engine_playbackEffect:
  assumes "audioManagerRef p = None"
  shows "audioManagerRef (playbackEffect env p) = None \<and> attempts (playbackEffect env p) = attempts p"
proof -
  let ?p1 = "p\<lparr> preFadeActive := False, transitionIdRef := Suc (transitionIdRef p),
                   videoError := False, isPlaying := True \<rparr>"
  have "audioManagerRef ?p1 = None" using assms by simp
  then have "audioManagerRef (run_transition env ?p1) = None \<and>
             attempts (run_transition env ?p1) = attempts ?p1"
    by (rule no_engine_run_transition)
  then show ?thesis using assms
    by (cases "videoRef p") (simp_all add: playbackEffect_def Let_def)
qed

lemma audioManagerRef_page_step:
  assumes a: "audioManagerRef p = None"
  shows "audioManagerRef (page_step ev p) = None"
proof (cases ev)
  case (PlaybackEffect env)
  then show ?thesis using no_engine_playbackEffect[OF a] by simp
next
  case (TogglePlay env)
  then show ?thesis using a
    by (cases "videoRef p"; cases "audioRef p") (simp_all add: togglePlay_def Let_def)
next
  case (ClickMedia env)
  then show ?thesis using a
    by (cases "videoRef p"; cases "audioRef p") (simp_all add: onClick_media_def Let_def)
next
  case CommitNavigation
  then show ?thesis using a by (cases "pendingCommits p") simp_all
next
  case ToggleMute
  then show ?thesis using a by (cases "videoRef p") (simp_all add: toggleMute_def Let_def)
next
  case ErrorEvent
  then show ?thesis using a by (cases "videoRef p") (simp_all add: onError_def Let_def)
next
  case (PlayEvent env)
  then show ?thesis using a by (cases "audioRef p") (simp_all add: onPlay_def Let_def)
next
  case (LoadedData env)
  then show ?thesis using a by (cases "videoRef p") (simp_all add: onLoadedData_def)
next
  case (Visibility h env)
  then show ?thesis using a by (cases "videoRef p") (simp_all add: onVisibilityChange_def)
next
  case PreFade
  then show ?thesis using a by (cases "audioRef p") (simp_all add: preFadeCurrentAudio_def)
qed (use a in \<open>simp_all add: renderMedia_def remountMedia_def trackIndexEffect_def onFirstInteract_def
       onWaiting_def onStalled_def onPause_def handleNextReel_def handlePrevReel_def
       strongStopAllMedia_def\<close>)

lemma audioManagerRef_page_run:
  "audioManagerRef p = None \<Longrightarrow> audioManagerRef (page_run evs p) = None"
  by (induction evs arbitrary: p) (simp_all add: page_run_def audioManagerRef_page_step)

lemmas media_defs = pageA_def pageA_pages_def renderMedia_def newVideoElement_def newAudioElement_def
  hasVideoUrl_def currentVideoUrl_def currentReel_def musicUrl_def reelA_def reelB_def trackX_def
  allGood_def el_play_def el_pause_def el_load_def

subsection \<open>The lookup service\<close>

lemma hd_sort_key_least:
  assumes "xs \<noteq> []"
  shows "hd (sort_key f xs) \<in> set xs \<and> (\<forall>y\<in>set xs. f (hd (sort_key f xs)) \<le> f y)"
proof -
  let ?ys = "sort_key f xs"
  have ne: "?ys \<noteq> []" using assms by (metis length_0_conv length_sort)
  have s: "set ?ys = set xs" by simp
  have srt: "sorted (map f ?ys)" by (rule sorted_sort_key)
  obtain z zs where z: "?ys = z # zs" using ne by (cases ?ys) auto
  have "\<forall>y\<in>set ?ys. f z \<le> f y" using srt z by auto
  then show ?thesis using z s by (metis list.sel(1) list.set_intros(1))
qed

lemma tableService_first:
  assumes "musicOfAnswer (tableService table (productMusicQuery n)) = Some t"
  shows "\<exists>s\<in>set table. row_product_id s = n \<and> is_active s \<and> trackOfRow (row s) = Some t \<and>
           (\<forall>s'\<in>set table. row_product_id s' = n \<and> is_active s' \<longrightarrow> priority s \<le> priority s')"
proof -
  let ?m = "filter (\<lambda>s. row_product_id s = n \<and> is_active s = True) table"
  let ?ys = "sort_key priority ?m"
  have ne: "?m \<noteq> []"
  proof
    assume "?m = []"
    then have "musicOfAnswer (tableService table (productMusicQuery n)) = None"
      by (simp add: musicOfAnswer_def tableService_def productMusicQuery_def firstRow_def)
    then show False using assms by simp
  qed
  then have ysne: "?ys \<noteq> []" by (metis length_0_conv length_sort)
  then obtain z zs where z: "?ys = z # zs" by (cases ?ys) auto
  have hz: "z = hd ?ys" using z by simp
  have t: "trackOfRow (row z) = Some t"
    using assms z by (simp add: musicOfAnswer_def tableService_def productMusicQuery_def firstRow_def)
  have l: "z \<in> set ?m \<and> (\<forall>y\<in>set ?m. priority z \<le> priority y)"
    using hd_sort_key_least[OF ne, of priority] hz by simp
  then show ?thesis using t by auto
qed

lemmas resolver_defs = musicEffect_def musicEffect_pages_def fetchMusic_def fetchMusic_pages_def
  trackOfEmbedded_def productMusicQuery_def musicOfAnswer_def firstRow_def trackOfRow_def
  embeddedUrl_def currentReel_def reelProductId_def orDefault_def tableService_def newReels_def
  reelA_def reelB_def trackX_def rowX_def rowY_def musicTable_def reelEmbedded_def reelNoId_def
  numberOf_def

subsection \<open>The preload caches\<close>

lemma pruneCaches_keys:
  "fst ` set (preloadedImages (pruneCaches keep c)) \<subseteq> set keep"
  "fst ` set (preloadedVideos (pruneCaches keep c)) \<subseteq> set keep"
  by (auto simp: pruneCaches_def)

lemma pruneCaches_released:
  "(u, v) \<in> set (preloadedVideos c) \<Longrightarrow>
   (u, v) \<in> set (preloadedVideos (pruneCaches keep c)) \<or>
   (u, releaseVideo v) \<in> set (releasedVideos (pruneCaches keep c))"
  by (force simp: pruneCaches_def)

lemma urlsInWindow_origin:
  assumes "u \<in> set (urlsInWindow rs k)"
  shows "\<exists>i. minKeep k \<le> i \<and> i \<le> maxKeep k (length rs) \<and> i < length rs \<and> u \<in> set (reelUrls (rs ! i))"
  using assms by (auto simp: urlsInWindow_def)

lemma preloadImage_videos [simp]: "preloadedVideos (preloadImage u c) = preloadedVideos c"
  by (simp add: preloadImage_def)

lemma fold_preloadImage_videos [simp]: "preloadedVideos (fold preloadImage us c) = preloadedVideos c"
  by (induction us arbitrary: c) simp_all

lemma addPrefetch_videos [simp]: "preloadedVideos (addPrefetch u c) = preloadedVideos c"
  by (simp add: addPrefetch_def)

lemma preloadVideo_keeps:
  "(u, v) \<in> set (preloadedVideos c) \<Longrightarrow> (u, v) \<in> set (preloadedVideos (preloadVideo w c))"
  by (simp add: preloadVideo_def)

lemma preloadReel_keeps:
  "(u, v) \<in> set (preloadedVideos c) \<Longrightarrow> (u, v) \<in> set (preloadedVideos (preloadReel r c))"
  by (cases "videoUrl r"; cases "reelAudioUrl r") (simp_all add: preloadReel_def Let_def preloadVideo_keeps)

lemma fold_preloadReel_keeps:
  "(u, v) \<in> set (preloadedVideos c) \<Longrightarrow> (u, v) \<in> set (preloadedVideos (fold preloadReel rs c))"
  by (induction rs arbitrary: c) (simp_all add: preloadReel_keeps)

lemma released_only_grows:
  "releasedVideos (preloadImage u c) = releasedVideos c"
  "releasedVideos (preloadVideo u c) = releasedVideos c"
  "releasedVideos (addPrefetch u c) = releasedVideos c"
  by (simp_all add: preloadImage_def preloadVideo_def addPrefetch_def)

lemma window_bounds:
  "minKeep k = max 0 (k - 1)" "n > 0 \<Longrightarrow> maxKeep k n = min (n - 1) (k + 2)"
  by (simp_all add: minKeep_def maxKeep_def PRELOAD_AHEAD_def PRELOAD_BEHIND_def)

lemmas cache_defs = preloadEffect_def pruneCaches_def urlsInWindow_def reelUrls_def preloadReel_def
  preloadImage_def preloadVideo_def addPrefetch_def reelAudioUrl_def firstGalleryImages_def
  indicesToPreload_def minKeep_def maxKeep_def PRELOAD_AHEAD_def PRELOAD_BEHIND_def has_def
  releaseVideo_def el_load_def newVideoElement_def unmountCaches_def videoReel_def feed5_def
  cacheAt0_def Let_def

lemma cacheAt0_value:
  "map fst (preloadedVideos cacheAt0) = [''v1.mp4'', ''v2.mp4''] \<and>
   map fst (preloadedImages cacheAt0) = [''p1.jpg'', ''p2.jpg'']"
  by (simp add: cache_defs upt_rec)

subsection \<open>Concrete runs\<close>

lemmas engine_defs = run_def newSystem_def newAudioManager_def play_def stop_def play_begin_def
  play_decoded_def setState_def cleanup_def closeContext_def clearFadeTimeout_def fadeTo_def
  unload_def setVolume_def setMuted_def dispose_def Let_def

lemma raceSystem_reached:
  "run [(0, Call (Play ''a.mp3'' True)), (1, Resume 0 Settled), (2, Call (Play ''b.mp3'' True)),
        (3, Resume 1 Settled), (4, Resume 0 Settled), (5, Resume 0 Settled)] newSystem = raceSystem"
  by (simp add: raceSystem_def engine_defs)

lemma playingEngine_reached:
  "manager (run [(0, Call (Play ''a.mp3'' False)), (1, Resume 0 Settled), (2, Resume 0 Settled),
        (3, Resume 0 Settled), (4, Resume 0 Settled), (5, Resume 0 Settled)] newSystem)
     = playingEngine\<lparr> effects := [StateChanged loading, ContextCreated 1, FetchIssued ''a.mp3'',
                                   StateChanged ready, SourceStarted 1 ''a.mp3'', StateChanged playing],
                       fresh := 2 \<rparr>"
  by (simp add: playingEngine_def engine_defs)

subsection \<open>Superseded loads\<close>

text \<open>
  A load abandoned by a later \<open>play\<close>. \<open>play\<close> stamps the invocation with the
  incremented transition counter; no run of the engine lowers the counter; a decode
  that completes for an invocation whose stamp is no longer the counter stores nothing
  playable: the invocation resolves after \<open>cleanup\<close>, which leaves the engine released
  with its context closed and no playback started; and once a later \<open>play\<close> has moved
  the counter past a stamp, no continuation of the run starts playback for that stamp.
\<close>

lemma newer_play_discards_load:
  "myTransitionId (fst (fst (play url fadeIn now m))) = Suc (transitionId m) \<and>
   transitionId (snd (play url fadeIn now m)) = Suc (transitionId m) \<and>
   transitionId (manager sys) \<le> transitionId (manager (run evs sys)) \<and>
   (myTransitionId c \<noteq> transitionId m \<longrightarrow>
      play_resume Settled now c PlayDecoding m = (Resolved, cleanup (m\<lparr> audioBuffer := Some (play_url c) \<rparr>)) \<and>
      released (snd (play_resume Settled now c PlayDecoding m)) \<and>
      closed_context m (snd (play_resume Settled now c PlayDecoding m)) \<and>
      all_starts (snd (play_resume Settled now c PlayDecoding m)) = all_starts m) \<and>
   (stamp < transitionId (manager sys) \<longrightarrow>
      starts_of stamp (manager (run evs sys)) = starts_of stamp (manager sys))"
proof -
  have stamp: "myTransitionId (fst (fst (play url fadeIn now m))) = Suc (transitionId m)"
    by (cases "stop True now (m\<lparr> transitionId := Suc (transitionId m) \<rparr>)")
       (auto simp: play_def Let_def split: status.splits)
  have "transitionId (snd (stop True now (m\<lparr> transitionId := Suc (transitionId m) \<rparr>))) = Suc (transitionId m)"
    by (simp add: stop_def Let_def fadeTo_def setState_def clearFadeTimeout_def unload_def cleanup_def closeContext_def
          split: option.splits)
  then have count: "transitionId (snd (play url fadeIn now m)) = Suc (transitionId m)"
    by (cases "stop True now (m\<lparr> transitionId := Suc (transitionId m) \<rparr>)")
       (auto simp: play_def Let_def split: status.splits)
  have mono: "transitionId (manager sys) \<le> transitionId (manager (run evs sys))"
    using passes_run[of 0 sys evs] by (simp add: passes_def)
  have stale: "myTransitionId c \<noteq> transitionId m \<Longrightarrow>
      play_resume Settled now c PlayDecoding m = (Resolved, cleanup (m\<lparr> audioBuffer := Some (play_url c) \<rparr>))"
    by (simp add: play_decoded_def Let_def)
  have rel: "closed_context m (cleanup (m\<lparr> audioBuffer := Some (play_url c) \<rparr>))"
    using closed_context_cleanup[of "m\<lparr> audioBuffer := Some (play_url c) \<rparr>"]
    by (simp split: option.splits)
  have st: "all_starts (cleanup (m\<lparr> audioBuffer := Some (play_url c) \<rparr>)) = all_starts m"
    by (simp add: all_starts_cleanup) (simp add: all_starts_def)
  have never: "stamp < transitionId (manager sys) \<Longrightarrow>
      starts_of stamp (manager (run evs sys)) = starts_of stamp (manager sys)"
    using passes_run[of stamp sys evs] by (simp add: passes_def)
  show ?thesis
    using stamp count mono stale rel st never released_cleanup by simp
qed

lemma newer_play_discards_load_race:
  "myTransitionId (fst (fst (play ''b.mp3'' True 6 (manager (run [(0, Call (Play ''a.mp3'' True)), (1, Resume 0 Settled)] newSystem))))) = 2 \<and>
   (1::nat) < transitionId (manager raceSystem) \<and>
   starts_of 1 (manager (run [(6, Resume 0 Settled), (7, Resume 1 Settled)] raceSystem)) = [] \<and>
   play_resume Settled 6 \<lparr> myTransitionId = 1, play_url = ''a.mp3'', play_fadeIn = True \<rparr> PlayDecoding (manager raceSystem)
     = (Resolved, cleanup ((manager raceSystem)\<lparr> audioBuffer := Some ''a.mp3'' \<rparr>)) \<and>
   released (snd (play_resume Settled 6 \<lparr> myTransitionId = 1, play_url = ''a.mp3'', play_fadeIn = True \<rparr> PlayDecoding (manager raceSystem)))"
  using newer_play_discards_load[where url = "''b.mp3''" and fadeIn = True and now = 6
      and m = "manager (run [(0, Call (Play ''a.mp3'' True)), (1, Resume 0 Settled)] newSystem)"
      and sys = raceSystem and evs = "[(6, Resume 0 Settled), (7, Resume 1 Settled)]"
      and c = "\<lparr> myTransitionId = 1, play_url = ''a.mp3'', play_fadeIn = True \<rparr>" and stamp = 1]
  by (simp add: engine_defs raceSystem_def starts_of_def released_def)

text \<open>
  C1 fails for a load abandoned by \<open>stop\<close>. \<open>stop\<close> and its resumptions leave the
  transition counter as it is, and \<open>stop\<close> called while neither a source nor a buffer
  is held (which is the case during the whole load) resolves at once and changes
  nothing. So for every URL, with or without fades, and wherever in the load the call
  of \<open>stop\<close> arrives (while \<open>play\<close> awaits its own \<open>stop()\<close>, the fetch, the body or the
  decode): the promise of \<open>stop\<close> is resolved while nothing has been started, the run
  ends in the very engine that the undisturbed load ends in, and the abandoned track
  has been started and is playing at full gain.
\<close>

theorem stop_during_load_still_starts:
  "transitionId (snd (stop fadeOut now m)) = transitionId m \<and>
   transitionId (snd (stop_resume sig pc m)) = transitionId m \<and>
   stop fadeOut now (m\<lparr> sourceNode := None, audioBuffer := None \<rparr>)
     = (Resolved, m\<lparr> sourceNode := None, audioBuffer := None \<rparr>) \<and>
   list_all (\<lambda>k.
      tasks (run (take (k + 2) (stopDuringLoad url fadeIn fadeOut k)) newSystem) ! 1 = Resolved \<and>
      all_starts (manager (run (take (k + 2) (stopDuringLoad url fadeIn fadeOut k)) newSystem)) = [] \<and>
      manager (run (stopDuringLoad url fadeIn fadeOut k) newSystem)
        = manager (run (loadToStart url fadeIn) newSystem) \<and>
      starts_of 1 (manager (run (stopDuringLoad url fadeIn fadeOut k) newSystem))
        = [SourceStarted 1 url] \<and>
      state (manager (run (stopDuringLoad url fadeIn fadeOut k) newSystem)) = playing \<and>
      sourceNode (manager (run (stopDuringLoad url fadeIn fadeOut k) newSystem)) = Some url \<and>
      effectiveVolume (manager (run (stopDuringLoad url fadeIn fadeOut k) newSystem)) = 1)
     [0, 1, 2, 3]"
proof -
  have "list_all (\<lambda>k.
      tasks (run (take (k + 2) (stopDuringLoad url fadeIn fadeOut k)) newSystem) ! 1 = Resolved \<and>
      all_starts (manager (run (take (k + 2) (stopDuringLoad url fadeIn fadeOut k)) newSystem)) = [] \<and>
      manager (run (stopDuringLoad url fadeIn fadeOut k) newSystem)
        = manager (run (loadToStart url fadeIn) newSystem) \<and>
      starts_of 1 (manager (run (stopDuringLoad url fadeIn fadeOut k) newSystem))
        = [SourceStarted 1 url] \<and>
      state (manager (run (stopDuringLoad url fadeIn fadeOut k) newSystem)) = playing \<and>
      sourceNode (manager (run (stopDuringLoad url fadeIn fadeOut k) newSystem)) = Some url \<and>
      effectiveVolume (manager (run (stopDuringLoad url fadeIn fadeOut k) newSystem)) = 1)
     [0, 1, 2, 3]"
    by (cases fadeIn)
       (simp_all add: stopDuringLoad_def loadToStart_def engine_defs all_starts_def starts_of_def
          effectiveVolume_def)
  then show ?thesis
    by (intro conjI stop_keeps_counter stop_resume_keeps_counter stop_without_graph)
qed

subsection \<open>Muting\<close>

text \<open>
  C2 at a concrete engine: playing at volume 1, \<open>setMuted(true)\<close> silences the output
  and also overwrites the stored volume with 0, so the following \<open>setMuted(false)\<close>
  leaves the output at 0 instead of 1. Playback is not restarted.
\<close>

theorem setMuted_roundtrip_silences:
  "volume playingEngine = 1 \<and> effectiveVolume playingEngine = 1 \<and>
   effectiveVolume (setMuted True playingEngine) = 0 \<and>
   volume (setMuted True playingEngine) = 0 \<and>
   effectiveVolume (setMuted False (setMuted True playingEngine)) = 0 \<and>
   state (setMuted False (setMuted True playingEngine)) = playing"
  by (simp add: playingEngine_def newAudioManager_def setMuted_def setVolume_def effectiveVolume_def)

lemma setMuted_forgets_volume:
  "volume (setMuted True m) = 0 \<and> effectiveVolume (setMuted False (setMuted True m)) = 0"
  by (simp add: setMuted_def setVolume_def effectiveVolume_def Let_def split: option.splits)
subsection \<open>Failing loads\<close>

text \<open>
  C3. A rejected \<open>fetch\<close>, a rejected \<open>response.arrayBuffer()\<close> and a rejected
  \<open>decodeAudioData\<close> each end the invocation of \<open>play\<close> with a rejection that carries
  the error, after \<open>cleanup\<close>: the engine is idle, context, buffer, source, gain and
  URL are cleared, the context that was open is closed and no playback has been
  started. The same holds when the platform throws while the playback graph is built
  and started, or while the context is constructed, and in general whenever a
  resumption of \<open>play\<close> rejects; the rejection is what the caller's promise settles
  with.
\<close>

theorem play_failure_releases:
  "(pc = PlayFetching \<or> pc = PlayReadingBody \<or> pc = PlayDecoding \<longrightarrow>
      fails_released e m (play_resume (Failed e) now c pc m)) \<and>
   (myTransitionId c = transitionId m \<and> audioContext m \<noteq> None \<longrightarrow>
      fails_released e m (play_resume (PlatformThrows e) now c PlayDecoding m)) \<and>
   (myTransitionId c = transitionId m \<and> audioContext m = None \<longrightarrow>
      fails_released e m (play_resume (PlatformThrows e) now c (PlayStopping None) m)) \<and>
   (fst (play_resume sig now c pc m) = Rejected e \<longrightarrow>
      fails_released e m (play_resume sig now c pc m) \<and>
      task_resume sig now (PlayTask c pc) m = (Rejected e, snd (play_resume sig now c pc m)))"
proof -
  have a: "pc = PlayFetching \<or> pc = PlayReadingBody \<or> pc = PlayDecoding \<Longrightarrow>
      fails_released e m (play_resume (Failed e) now c pc m)"
    by (auto intro!: fails_released_cleanup)
  have b: "myTransitionId c = transitionId m \<and> audioContext m \<noteq> None \<Longrightarrow>
      fails_released e m (play_resume (PlatformThrows e) now c PlayDecoding m)"
    by (rule rejected_play_resume) (auto simp: play_decoded_def Let_def)
  have c: "myTransitionId c = transitionId m \<and> audioContext m = None \<Longrightarrow>
      fails_released e m (play_resume (PlatformThrows e) now c (PlayStopping None) m)"
    by (rule rejected_play_resume) (auto simp: play_begin_def Let_def)
  have d: "fst (play_resume sig now c pc m) = Rejected e \<Longrightarrow>
      task_resume sig now (PlayTask c pc) m = (Rejected e, snd (play_resume sig now c pc m))"
    by (cases "play_resume sig now c pc m") auto
  show ?thesis using a b c d rejected_play_resume by blast
qed

theorem play_failure_releases_witness:
  "play_resume (Failed ''network'') 2 call1 PlayFetching loadingEngine = (Rejected ''network'', cleanup loadingEngine) \<and>
   state (cleanup loadingEngine) = idle \<and> audioContext (cleanup loadingEngine) = None \<and>
   ContextClosed 1 \<in> set (effects (cleanup loadingEngine)) \<and>
   fails_released ''decode'' loadingEngine (play_resume (Failed ''decode'') 2 call1 PlayDecoding loadingEngine) \<and>
   fails_released ''start'' loadingEngine (play_resume (PlatformThrows ''start'') 2 call1 PlayDecoding loadingEngine) \<and>
   fails_released ''ctor'' (newAudioManager\<lparr> transitionId := 1 \<rparr>)
     (play_resume (PlatformThrows ''ctor'') 2 call1 (PlayStopping None) (newAudioManager\<lparr> transitionId := 1 \<rparr>)) \<and>
   task_resume (Failed ''network'') 2 (PlayTask call1 PlayFetching) loadingEngine = (Rejected ''network'', cleanup loadingEngine)"
  using play_failure_releases[where pc = PlayFetching and e = "''network''" and m = loadingEngine and now = 2 and c = call1
          and sig = "Failed ''network''"]
        play_failure_releases[where pc = PlayDecoding and e = "''decode''" and m = loadingEngine and now = 2 and c = call1
          and sig = "Failed ''decode''"]
        play_failure_releases[where pc = PlayDecoding and e = "''start''" and m = loadingEngine and now = 2 and c = call1
          and sig = "PlatformThrows ''start''"]
        play_failure_releases[where pc = "PlayStopping None" and e = "''ctor''" and m = "newAudioManager\<lparr> transitionId := 1 \<rparr>" and now = 2 and c = call1
          and sig = "PlatformThrows ''ctor''"]
  by (simp add: loadingEngine_def call1_def engine_defs)

subsection \<open>Fades\<close>

text \<open>
  C10. No method of the class assigns \<open>sound\<close>: in every run of a new engine it stays
  unset and no invocation ever waits inside a volume ramp. With \<open>sound\<close> unset,
  \<open>fadeTo\<close> resolves at once and changes nothing but the pending fade timer, which it
  clears; \<open>stop(false)\<close> is in exactly the configuration that \<open>stop(true)\<close> is in after
  its fade has been awaited; and \<open>play\<close> with \<open>fadeIn\<close> leaves the new gain node at its
  initial value and the stored volume as it was, waiting only to return.
\<close>

theorem fadeTo_never_ramps:
  "sound (manager (run evs newSystem)) = None \<and>
   \<not> list_ex fading (tasks (run evs newSystem)) \<and>
   (sound m = None \<longrightarrow>
      fadeTo va vb duration now m = (None, clearFadeTimeout m) \<and>
      volume (clearFadeTimeout m) = volume m \<and> gainNode (clearFadeTimeout m) = gainNode m \<and>
      effects (clearFadeTimeout m) = effects m \<and>
      stop False now m =
        (case stop True now m of
           (Suspended StopFaded, m1) \<Rightarrow> stop_resume sig StopFaded m1
         | r \<Rightarrow> r)) \<and>
   (sound m = None \<and> play_fadeIn c \<and> myTransitionId c = transitionId m \<and> audioContext m = Some x \<longrightarrow>
      fst (play_decoded Settled now c m) = Suspended PlaySettling \<and>
      gainNode (snd (play_decoded Settled now c m)) = Some 1 \<and>
      volume (snd (play_decoded Settled now c m)) = volume m \<and>
      state (snd (play_decoded Settled now c m)) = playing)"
proof -
  have q: "quiet (run evs newSystem)"
    by (rule quiet_run[OF quiet_newSystem])
  have f: "volume (clearFadeTimeout m) = volume m \<and> gainNode (clearFadeTimeout m) = gainNode m \<and>
           effects (clearFadeTimeout m) = effects m"
    by (cases "fadeTimeout m") (simp_all add: clearFadeTimeout_def)
  show ?thesis
    using q f fadeTo_without_sound[of m va vb duration now]
      stop_fade_flag_irrelevant[of m now sig] fadeIn_sets_nothing[of m c x now]
    by (simp add: quiet_def)
qed

theorem fadeTo_never_ramps_witness:
  "sound (manager (run [(0, Call (Play ''a.mp3'' True)), (1, Resume 0 Settled)] newSystem)) = None \<and>
   \<not> list_ex fading (tasks (run [(0, Call (Play ''a.mp3'' True)), (1, Resume 0 Settled)] newSystem)) \<and>
   fadeTo 1 0 500 7 playingEngine = (None, playingEngine) \<and>
   stop False 7 playingEngine = stop_resume Settled StopFaded (snd (stop True 7 playingEngine)) \<and>
   fst (stop True 7 playingEngine) = Suspended StopFaded \<and>
   fst (play_decoded Settled 7 call1 loadingEngine) = Suspended PlaySettling \<and>
   gainNode (snd (play_decoded Settled 7 call1 loadingEngine)) = Some 1 \<and>
   volume (snd (play_decoded Settled 7 call1 loadingEngine)) = 1"
  using fadeTo_never_ramps[where evs = "[(0, Call (Play ''a.mp3'' True)), (1, Resume 0 Settled)]"
      and m = playingEngine and va = 1 and vb = 0 and duration = 500 and now = 7 and sig = Settled
      and c = call1 and x = 1]
    fadeTo_never_ramps[where evs = "[]" and m = loadingEngine and va = 0 and vb = 1
      and duration = 500 and now = 7 and sig = Settled and c = call1 and x = 1]
  by (simp add: playingEngine_def loadingEngine_def call1_def engine_defs)

subsection \<open>Navigation under rapid input\<close>



subsection \<open>Price pairs\<close>

text \<open>
  C7 (as the code has it). In the engine page the price pair of a product is
  normalised: 500 and 800 give current 500 and original 800 in either order; without
  a sale price, or with one equal to the price, there is no original; with two
  different values the current price is the smaller and the original the larger one,
  so an original, when present, is above the current price. An absent price counts
  as 0: alone, or with a sale price of 0, it gives current 0 and no original; with any
  other sale price the smaller of 0 and the sale price is the current price and the
  larger the original; and in general a product without a price resolves as the same
  product with price 0 does.
\<close>

theorem price_pair_normalised:
  "generateReelsFromProducts_price \<lparr> price = Some 500, sale_price = Some 800 \<rparr>
     = \<lparr> current = Some 500, original = Some 800 \<rparr> \<and>
   generateReelsFromProducts_price \<lparr> price = Some 800, sale_price = Some 500 \<rparr>
     = \<lparr> current = Some 500, original = Some 800 \<rparr> \<and>
   generateReelsFromProducts_price \<lparr> price = Some b, sale_price = None \<rparr>
     = \<lparr> current = Some b, original = None \<rparr> \<and>
   generateReelsFromProducts_price \<lparr> price = Some b, sale_price = Some b \<rparr>
     = \<lparr> current = Some b, original = None \<rparr> \<and>
   (a \<noteq> b \<longrightarrow>
      generateReelsFromProducts_price \<lparr> price = Some b, sale_price = Some a \<rparr>
        = \<lparr> current = Some (min b a), original = Some (max b a) \<rparr>) \<and>
   (original (generateReelsFromProducts_price product) = Some orig \<longrightarrow>
      (\<exists>cur. current (generateReelsFromProducts_price product) = Some cur \<and> cur < orig)) \<and>
   generateReelsFromProducts_price \<lparr> price = None, sale_price = None \<rparr>
     = \<lparr> current = Some 0, original = None \<rparr> \<and>
   generateReelsFromProducts_price \<lparr> price = None, sale_price = Some 0 \<rparr>
     = \<lparr> current = Some 0, original = None \<rparr> \<and>
   (d \<noteq> 0 \<longrightarrow>
      generateReelsFromProducts_price \<lparr> price = None, sale_price = Some d \<rparr>
        = \<lparr> current = Some (min 0 d), original = Some (max 0 d) \<rparr>) \<and>
   generateReelsFromProducts_price \<lparr> price = None, sale_price = alt \<rparr>
     = generateReelsFromProducts_price \<lparr> price = Some 0, sale_price = alt \<rparr>"
  by (auto simp: generateReelsFromProducts_price_def Let_def split: option.splits if_splits)

theorem price_pair_normalised_witness:
  "(300::real) \<noteq> 200 \<and>
   generateReelsFromProducts_price \<lparr> price = Some 200, sale_price = Some 300 \<rparr>
     = \<lparr> current = Some 200, original = Some 300 \<rparr> \<and>
   original (generateReelsFromProducts_price \<lparr> price = Some 300, sale_price = Some 200 \<rparr>) = Some 300 \<and>
   current (generateReelsFromProducts_price \<lparr> price = Some 300, sale_price = Some 200 \<rparr>) = Some 200 \<and>
   (800::real) \<noteq> 0 \<and>
   generateReelsFromProducts_price \<lparr> price = None, sale_price = Some 800 \<rparr>
     = \<lparr> current = Some 0, original = Some 800 \<rparr>"
  using price_pair_normalised[where a = 300 and b = 200 and product = "\<lparr> price = Some 300, sale_price = Some 200 \<rparr>" and orig = 300
      and d = 800 and alt = "Some 800"]
  by (simp add: generateReelsFromProducts_price_def)

text \<open>
  C7 as stated fails for \<open>src/pages/Reels.tsx\<close>, which takes the sale price as the
  current price whenever it is set: price 500 with sale price 800 gives current 800 and
  original 500.
\<close>

theorem price_pair_pages_field_order:
  "generateReelsFromProducts_price_pages \<lparr> price = Some 500, sale_price = Some 800 \<rparr>
     = \<lparr> current = Some 800, original = Some 500 \<rparr> \<and>
   generateReelsFromProducts_price_pages \<lparr> price = Some 500, sale_price = Some 800 \<rparr>
     \<noteq> \<lparr> current = Some 500, original = Some 800 \<rparr>"
  by (simp add: generateReelsFromProducts_price_pages_def)

subsection \<open>The video element\<close>

text \<open>
  C4 (as the code has it). In the engine page the mounted video element is muted in
  every state that any sequence of renders, effects, control handlers, media events
  and navigation reaches, from the initial page or from any page whose element is
  muted; a mute toggle leaves it muted whatever it was before, and a playback start
  that gets as far as \<open>play()\<close> has muted the element and set its volume to 0.
\<close>

theorem video_stays_muted:
  "videoMuted (page_run evs (newReels rs)) \<and>
   (videoMuted p \<longrightarrow> videoMuted (page_run evs p)) \<and>
   videoMuted (toggleMute p) \<and>
   (videoRef p = Some v \<and> hasVideoUrl p \<and> (3 \<le> readyState v \<or> canPlay env) \<longrightarrow>
      (\<exists>v'. videoRef (startVideoPlayback env p) = Some v' \<and> muted v' \<and> el_volume v' = 0))"
proof -
  have "videoMuted (newReels rs)" by (simp add: videoMuted_def newReels_def)
  then have "videoMuted (page_run evs (newReels rs))" by (rule videoMuted_page_run)
  then show ?thesis
    using videoMuted_page_run[of p evs] videoMuted_toggleMute[of p] startVideoPlayback_mutes[of p v env]
    by blast
qed

theorem video_stays_muted_witness:
  "videoMuted pageA \<and>
   videoMuted (page_run [PlaybackEffect allGood, ToggleMute, ClickMedia allGood, ToggleMute] pageA) \<and>
   map_option muted (videoRef (startVideoPlayback allGood pageA)) = Some True \<and>
   map_option paused (videoRef (startVideoPlayback allGood pageA)) = Some False"
  using video_stays_muted[where p = pageA and evs = "[PlaybackEffect allGood, ToggleMute, ClickMedia allGood, ToggleMute]"
      and v = "newVideoElement ''a.mp4''" and env = allGood]
  by (auto simp: media_defs newReels_def videoMuted_def startVideoPlayback_def)

text \<open>
  C4 as stated fails for \<open>src/pages/Reels.tsx\<close>: with a video element, an \<open>audio\<close>
  element and a music URL, \<open>startPlayback\<close> ends with the video element unmuted, and so
  does an unmuting \<open>toggleMute\<close>.
\<close>

theorem pages_video_unmuted:
  "map_option muted (videoRef pageA_pages) = Some True \<and>
   map_option muted (videoRef (startPlayback_pages allGood pageA_pages)) = Some False \<and>
   map_option muted (videoRef (toggleMute_pages allGood pageA_pages)) = Some False"
  by (simp add: media_defs newReels_def newReels_pages_def startPlayback_pages_def
        startAudioPlayback_pages_def startVideoPlayback_pages_def toggleMute_pages_def Let_def)

subsection \<open>The first interaction\<close>

text \<open>
  C5 at a concrete page. The engine page shows an item whose music is resolved, no
  interaction has happened, the overlay is shown and no audio playback has been
  attempted. The first \<open>keydown\<close> records the interaction and removes the overlay, and
  the playback effect runs again, but no audio playback attempt is issued: the engine
  reference is \<open>null\<close> here and in every run of the page, since nothing assigns it, and
  \<open>startAudioPlayback\<close> returns. Only the click handler of the media area plays the
  \<open>audio\<close> element at once. With an engine attached, \<open>startAudioPlayback\<close> would
  request playback before any interaction: it does not read the flag.
\<close>

theorem first_keydown_starts_no_audio:
  "audioManagerRef (page_run evs (newReels rs)) = None \<and>
   tapToEnableSound pageA \<and> attempts pageA = [] \<and> audioManagerRef pageA = None \<and>
   hasUserInteracted (firstKeydown allGood pageA) \<and>
   \<not> tapToEnableSound (firstKeydown allGood pageA) \<and>
   attempts (firstKeydown allGood pageA) = [] \<and>
   audioManagerRef (firstKeydown allGood pageA) = None \<and>
   map_option paused (audioRef (firstKeydown allGood pageA)) = Some True \<and>
   attempts (onClick_media allGood pageA) = [ElementPlay] \<and>
   \<not> hasUserInteracted (pageA\<lparr> audioManagerRef := Some [] \<rparr>) \<and>
   attempts (playbackEffect allGood (pageA\<lparr> audioManagerRef := Some [] \<rparr>)) = [EnginePlay ''x.mp3'']"
  using audioManagerRef_page_run[of "newReels rs" evs]
  by (simp add: media_defs newReels_def tapToEnableSound_def firstKeydown_def onFirstInteract_def
        playbackEffect_def run_transition_def fadeOutAndStopPrevious_def startAudioPlayback_def
        startVideoPlayback_def onClick_media_def Let_def)

subsection \<open>Music resolution\<close>

text \<open>
  C9. In both pages: an item that carries \<open>music.url\<close> gets that track and no request
  is sent. Otherwise, with a numeric product id, exactly one query is sent (preceded
  in \<open>src/pages/Reels.tsx\<close> by an informational RPC): the active rows of that product
  in \<open>product_music\<close>, ordered by priority ascending, limit 1; the music is the first
  row of the answer (when it has an audio URL), and an empty answer gives no music.
  With a product id that is not a number the music is cleared and nothing is sent.
  Against a backend that evaluates the query over a table, the resolved track is
  that of an active row of the product with the least priority.
\<close>

theorem music_resolution_order:
  "(embeddedUrl p = Some em \<longrightarrow>
      musicEffect toNumber service p = (p\<lparr> music := Some (trackOfEmbedded em) \<rparr>, []) \<and>
      musicEffect_pages toNumber service p = (p\<lparr> music := Some (trackOfEmbedded em) \<rparr>, []) \<and>
      track_url (trackOfEmbedded em) = em_url em) \<and>
   (embeddedUrl p = None \<and> currentReel p = Some r \<and> reelProductId toNumber r = Num n \<longrightarrow>
      musicEffect toNumber service p =
        (p\<lparr> music := musicOfAnswer (service (productMusicQuery n)) \<rparr>, [SelectQuery (productMusicQuery n)]) \<and>
      musicEffect_pages toNumber service p =
        (p\<lparr> music := musicOfAnswer (service (productMusicQuery n)) \<rparr>,
         [RpcCall ''get_table_info'', SelectQuery (productMusicQuery n)])) \<and>
   (embeddedUrl p = None \<and> currentReel p = Some r \<and> reelProductId toNumber r = NaN \<longrightarrow>
      musicEffect toNumber service p = (p\<lparr> music := None \<rparr>, []) \<and>
      musicEffect_pages toNumber service p = (p\<lparr> music := None \<rparr>, [])) \<and>
   q_product_id (productMusicQuery n) = n \<and> q_is_active (productMusicQuery n) \<and>
   q_order (productMusicQuery n) = ''priority'' \<and> q_ascending (productMusicQuery n) \<and>
   q_limit (productMusicQuery n) = 1 \<and>
   musicOfAnswer (Inr \<lparr> data = Some [], error = None \<rparr>) = None \<and>
   musicOfAnswer (Inr \<lparr> data = Some (first # rest), error = None \<rparr>) = trackOfRow first \<and>
   (musicOfAnswer (tableService table (productMusicQuery n)) = Some t \<longrightarrow>
      (\<exists>s\<in>set table. row_product_id s = n \<and> is_active s \<and> trackOfRow (row s) = Some t \<and>
         (\<forall>s'\<in>set table. row_product_id s' = n \<and> is_active s' \<longrightarrow> priority s \<le> priority s')))"
  using tableService_first[of table n t]
  by (simp add: musicEffect_def musicEffect_pages_def fetchMusic_def fetchMusic_pages_def
        trackOfEmbedded_def productMusicQuery_def musicOfAnswer_def firstRow_def)

theorem music_resolution_order_witness:
  "musicEffect numberOf (tableService musicTable) (newReels [reelEmbedded])
     = ((newReels [reelEmbedded])\<lparr> music := Some \<lparr> track_url = ''e.mp3'', track_title = ''E'',
          track_artist = ''Ehsaas Jewels'', startAt = None, endAt = None \<rparr> \<rparr>, []) \<and>
   musicEffect numberOf (tableService musicTable) (newReels [reelA])
     = ((newReels [reelA])\<lparr> music := Some trackX \<rparr>, [SelectQuery (productMusicQuery 52)]) \<and>
   musicEffect numberOf (tableService musicTable) (newReels [reelB])
     = ((newReels [reelB])\<lparr> music := None \<rparr>, [SelectQuery (productMusicQuery 7)]) \<and>
   musicEffect numberOf (tableService musicTable) (newReels [reelNoId])
     = ((newReels [reelNoId])\<lparr> music := None \<rparr>, []) \<and>
   snd (musicEffect_pages numberOf (tableService musicTable) (newReels [reelNoId])) = [] \<and>
   musicOfAnswer (tableService musicTable (productMusicQuery 52)) = Some trackX"
  using music_resolution_order[where p = "newReels [reelEmbedded]" and toNumber = numberOf
      and service = "tableService musicTable"
      and em = "\<lparr> em_url = ''e.mp3'', em_title = Some ''E'', em_artist = None \<rparr>"]
    music_resolution_order[where p = "newReels [reelA]" and toNumber = numberOf
      and service = "tableService musicTable" and r = reelA and n = 52 and table = musicTable and t = trackX]
    music_resolution_order[where p = "newReels [reelB]" and toNumber = numberOf
      and service = "tableService musicTable" and r = reelB and n = 7]
    music_resolution_order[where p = "newReels [reelNoId]" and toNumber = numberOf
      and service = "tableService musicTable" and r = reelNoId]
  by (simp add: resolver_defs)

subsection \<open>The cache window\<close>

text \<open>
  C8. After the preload effect has run for index \<open>k\<close> of a feed of length \<open>L\<close>, every
  key of the image cache and of the video cache is a URL of an item whose index lies
  between \<open>max(0, k - 1)\<close> and \<open>min(L - 1, k + 2)\<close>; every video element that was
  cached before is either still cached or has been released, that is, its \<open>src\<close> is
  empty and \<open>load()\<close> has been called on it. The cleanup on unmount releases every
  cached video element and empties both caches.
\<close>

theorem cache_window_bound:
  "(k < length rs \<and> (u \<in> fst ` set (preloadedImages (preloadEffect rs k c)) \<or>
                      u \<in> fst ` set (preloadedVideos (preloadEffect rs k c))) \<longrightarrow>
      (\<exists>i. max 0 (k - 1) \<le> i \<and> i \<le> min (length rs - 1) (k + 2) \<and> u \<in> set (reelUrls (rs ! i)))) \<and>
   (k < length rs \<and> (u, v) \<in> set (preloadedVideos c) \<longrightarrow>
      (u, v) \<in> set (preloadedVideos (preloadEffect rs k c)) \<or>
      (u, releaseVideo v) \<in> set (releasedVideos (preloadEffect rs k c))) \<and>
   src (releaseVideo v) = [] \<and> loads (releaseVideo v) = Suc (loads v) \<and>
   preloadedVideos (unmountCaches c) = [] \<and> preloadedImages (unmountCaches c) = [] \<and>
   ((u, v) \<in> set (preloadedVideos c) \<longrightarrow> (u, releaseVideo v) \<in> set (releasedVideos (unmountCaches c)))"
proof -
  let ?c1 = "fold preloadReel [rs ! i. i \<leftarrow> indicesToPreload k (length rs), i < length rs] c"
  have eff: "k < length rs \<Longrightarrow> preloadEffect rs k c = pruneCaches (urlsInWindow rs k) ?c1"
    by (auto simp: preloadEffect_def Let_def)
  have a: "\<exists>i. max 0 (k - 1) \<le> i \<and> i \<le> min (length rs - 1) (k + 2) \<and> u \<in> set (reelUrls (rs ! i))"
    if h: "k < length rs" "u \<in> fst ` set (preloadedImages (preloadEffect rs k c)) \<or>
                      u \<in> fst ` set (preloadedVideos (preloadEffect rs k c))"
  proof -
    have "u \<in> set (urlsInWindow rs k)"
      using h eff pruneCaches_keys[of "urlsInWindow rs k" ?c1] by auto
    then obtain i where "minKeep k \<le> i" "i \<le> maxKeep k (length rs)" "u \<in> set (reelUrls (rs ! i))"
      using urlsInWindow_origin by blast
    moreover have "length rs > 0" using h by auto
    ultimately show ?thesis using window_bounds(1)[where k = k] window_bounds(2)[where k = k and n = "length rs"] by auto
  qed
  have b: "(u, v) \<in> set (preloadedVideos (preloadEffect rs k c)) \<or>
      (u, releaseVideo v) \<in> set (releasedVideos (preloadEffect rs k c))"
    if h: "k < length rs" "(u, v) \<in> set (preloadedVideos c)"
  proof -
    have "(u, v) \<in> set (preloadedVideos ?c1)" using h(2) by (rule fold_preloadReel_keeps)
    then show ?thesis using eff[OF h(1)] pruneCaches_released by simp
  qed
  have c: "src (releaseVideo v) = [] \<and> loads (releaseVideo v) = Suc (loads v)"
    by (simp add: releaseVideo_def el_load_def)
  have d: "preloadedVideos (unmountCaches c) = [] \<and> preloadedImages (unmountCaches c) = []"
    by (simp add: unmountCaches_def)
  have e: "(u, v) \<in> set (preloadedVideos c) \<Longrightarrow> (u, releaseVideo v) \<in> set (releasedVideos (unmountCaches c))"
    by (force simp: unmountCaches_def)
  show ?thesis using a b c d e by blast
qed

theorem cache_window_bound_witness:
  "(3::nat) < length feed5 \<and>
   map fst (preloadedVideos (preloadEffect feed5 3 cacheAt0)) = [''v2.mp4'', ''v4.mp4''] \<and>
   map fst (preloadedImages (preloadEffect feed5 3 cacheAt0)) = [''p2.jpg'', ''p4.jpg''] \<and>
   (''v1.mp4'', el_load (newVideoElement ''v1.mp4'')) \<in> set (preloadedVideos cacheAt0) \<and>
   (''v1.mp4'', releaseVideo (el_load (newVideoElement ''v1.mp4'')))
      \<in> set (releasedVideos (preloadEffect feed5 3 cacheAt0)) \<and>
   src (releaseVideo (el_load (newVideoElement ''v1.mp4''))) = [] \<and>
   ''v4.mp4'' \<in> set (reelUrls (feed5 ! 4))"
  using cache_window_bound[where rs = feed5 and k = 3 and c = cacheAt0 and u = "''v1.mp4''"
      and v = "el_load (newVideoElement ''v1.mp4'')"]
    cache_window_bound[where rs = feed5 and k = 3 and c = cacheAt0 and u = "''v4.mp4''"
      and v = "el_load (newVideoElement ''v1.mp4'')"]
  by (simp add: cache_defs upt_rec)

end
